theory Spec2Isabelle
  imports Complex_Main "HOL-Library.Word"
begin

unbundle bit_operations_syntax

section \<open>Python values, exceptions and library capabilities\<close>

text \<open>
  The three Lambda functions of the review pipeline (\<^verbatim>\<open>preprocess.py\<close>,
  \<^verbatim>\<open>profanity.py\<close>, \<^verbatim>\<open>sentiment.py\<close>) are embedded as state-passing functions
  over a \<open>world\<close>: the Parameter Store, the S3 buckets, the DynamoDB tables and the
  number of clock readings taken so far. Every exception a source line can raise is a
  value of \<open>exn\<close>; an exception caught by a \<^verbatim>\<open>try\<close> becomes an outcome, an
  uncaught one ends the handler.
\<close>

datatype exn =
    KeyError string
  | ValueError string
  | TypeError
  | AttributeError
  | IndexError
  | JSONDecodeError
  | LibraryError
  | ClientError string

text \<open>
  Library functions the repository calls but does not define are fields of \<open>libs\<close>:
  the profanity classifier, the VADER scorer, the NLP canonicalisation, the \<^verbatim>\<open>float\<close>,
  \<^verbatim>\<open>int\<close>, \<^verbatim>\<open>Decimal\<close> and \<^verbatim>\<open>str\<close> conversions, the \<^verbatim>\<open>datetime\<close> conversions and
  the clocks. \<open>None\<close> stands for the library raising. A clock field maps the number of
  readings taken so far to the text the next reading yields.
\<close>

text \<open>A parsed JSON value, and a DynamoDB attribute value as boto3 presents it.\<close>

datatype json =
    JNull
  | JBool bool
  | JNum real
  | JStr string
  | JArr "json list"
  | JObj "(string \<times> json) list"

datatype val = S string | N real | BOOL bool | NULL

record libs =
  is_profane :: "string \<Rightarrow> bool option"
  polarity_compound :: "string \<Rightarrow> real option"
  nlp_canonical :: "string \<Rightarrow> string option"
  py_float :: "string \<Rightarrow> real option"
  py_int :: "string \<Rightarrow> int option"
  py_decimal :: "string \<Rightarrow> real option"
  py_repr :: "json \<Rightarrow> string"
  ddb_serialize :: "json \<Rightarrow> val option"
  utcfromtimestamp_iso :: "json \<Rightarrow> string option"
  strptime_iso :: "json \<Rightarrow> string option"
  now_iso :: "nat \<Rightarrow> string"
  utcnow_iso :: "nat \<Rightarrow> string"
  utcnow_timestamp :: "nat \<Rightarrow> string"

subsection \<open>The world: Parameter Store, S3, DynamoDB, clock\<close>

type_synonym item = "string \<rightharpoonup> val"

text \<open>
  A table has one key attribute (its key schema) and rows by key value. An S3 object
  body either parses as JSON (\<open>JsonDoc\<close>, the parsed value) or does not.
\<close>

record table =
  key_attr :: string
  rows :: "string \<rightharpoonup> item"

datatype body = JsonDoc json | Bytes string

record world =
  ssm :: "string \<rightharpoonup> string"
  s3 :: "string \<rightharpoonup> (string \<rightharpoonup> body)"
  tables :: "string \<rightharpoonup> table"
  ticks :: nat

text \<open>\<^verbatim>\<open>ssm.get_parameter(Name=name)["Parameter"]["Value"]\<close>.\<close>

definition ssm_get_parameter :: "world \<Rightarrow> string \<Rightarrow> exn + string" where
  "ssm_get_parameter w name =
     (case ssm w name of
        None \<Rightarrow> Inl (ClientError ''ParameterNotFound'')
      | Some v \<Rightarrow> Inr v)"

text \<open>\<^verbatim>\<open>s3.get_object(Bucket=bucket, Key=key)["Body"].read()\<close> and \<^verbatim>\<open>s3.put_object\<close>.\<close>

definition s3_get_object :: "world \<Rightarrow> string \<Rightarrow> string \<Rightarrow> exn + body" where
  "s3_get_object w bucket okey =
     (case s3 w bucket of
        None \<Rightarrow> Inl (ClientError ''NoSuchBucket'')
      | Some objs \<Rightarrow>
          (case objs okey of
             None \<Rightarrow> Inl (ClientError ''NoSuchKey'')
           | Some b \<Rightarrow> Inr b))"

definition s3_put_object :: "world \<Rightarrow> string \<Rightarrow> string \<Rightarrow> body \<Rightarrow> exn + world" where
  "s3_put_object w bucket okey b =
     (case s3 w bucket of
        None \<Rightarrow> Inl (ClientError ''NoSuchBucket'')
      | Some objs \<Rightarrow> Inr (w\<lparr>s3 := (s3 w)(bucket \<mapsto> objs(okey \<mapsto> b))\<rparr>))"

definition json_loads :: "body \<Rightarrow> exn + json" where
  "json_loads b = (case b of JsonDoc j \<Rightarrow> Inr j | Bytes _ \<Rightarrow> Inl JSONDecodeError)"

text \<open>
  DynamoDB. \<^verbatim>\<open>get_item\<close>, \<^verbatim>\<open>update_item\<close> with a \<^verbatim>\<open>SET\<close> expression (an upsert:
  a missing row is created from the key; the result is the whole new row, as
  \<^verbatim>\<open>ReturnValues='ALL_NEW'\<close> returns it) and \<^verbatim>\<open>put_item\<close> (the whole row is
  replaced). A missing table, a key attribute other than the table's, or a \<^verbatim>\<open>SET\<close> of
  the key attribute is refused.
\<close>

definition set_attrs :: "item \<Rightarrow> (string \<times> val) list \<Rightarrow> item" where
  "set_attrs it sets = fold (\<lambda>(a, v) m. m(a \<mapsto> v)) sets it"

definition ddb_get_item :: "world \<Rightarrow> string \<Rightarrow> string \<Rightarrow> string \<Rightarrow> exn + item option" where
  "ddb_get_item w tname kattr k =
     (case tables w tname of
        None \<Rightarrow> Inl (ClientError ''ResourceNotFoundException'')
      | Some t \<Rightarrow>
          if key_attr t \<noteq> kattr then Inl (ClientError ''ValidationException'')
          else Inr (rows t k))"

definition ddb_update_item ::
  "world \<Rightarrow> string \<Rightarrow> string \<Rightarrow> string \<Rightarrow> (string \<times> val) list \<Rightarrow> exn + (item \<times> world)" where
  "ddb_update_item w tname kattr k sets =
     (case tables w tname of
        None \<Rightarrow> Inl (ClientError ''ResourceNotFoundException'')
      | Some t \<Rightarrow>
          if key_attr t \<noteq> kattr \<or> kattr \<in> fst ` set sets
          then Inl (ClientError ''ValidationException'')
          else
            (let old = (case rows t k of None \<Rightarrow> [kattr \<mapsto> S k] | Some it \<Rightarrow> it);
                 new = set_attrs old sets
             in Inr (new, w\<lparr>tables := (tables w)(tname \<mapsto> t\<lparr>rows := (rows t)(k \<mapsto> new)\<rparr>)\<rparr>)))"

definition ddb_put_item :: "world \<Rightarrow> string \<Rightarrow> item \<Rightarrow> exn + world" where
  "ddb_put_item w tname it =
     (case tables w tname of
        None \<Rightarrow> Inl (ClientError ''ResourceNotFoundException'')
      | Some t \<Rightarrow>
          (case it (key_attr t) of
             Some (S k) \<Rightarrow> Inr (w\<lparr>tables := (tables w)(tname \<mapsto> t\<lparr>rows := (rows t)(k \<mapsto> it)\<rparr>)\<rparr>)
           | _ \<Rightarrow> Inl (ClientError ''ValidationException'')))"

text \<open>
  A DynamoDB Streams record: the event name and the new image, each attribute in the
  typed form \<^verbatim>\<open>{"S": ...}\<close>, \<^verbatim>\<open>{"N": ...}\<close>, \<^verbatim>\<open>{"BOOL": ...}\<close>, \<^verbatim>\<open>{"NULL": true}\<close>.
\<close>

datatype attr = AttrS string | AttrN string | AttrBOOL bool | AttrNULL

record stream_record =
  eventName :: string
  NewImage :: "string \<rightharpoonup> attr"

text \<open>\<^verbatim>\<open>new_image[name]['S']\<close>: a \<^verbatim>\<open>KeyError\<close> for a missing attribute or type tag.\<close>

definition image_S :: "(string \<rightharpoonup> attr) \<Rightarrow> string \<Rightarrow> exn + string" where
  "image_S img name =
     (case img name of
        None \<Rightarrow> Inl (KeyError name)
      | Some (AttrS s) \<Rightarrow> Inr s
      | Some _ \<Rightarrow> Inl (KeyError ''S''))"

text \<open>\<^verbatim>\<open>d.get(k, default)\<close> on a parsed JSON value: only a dict has \<^verbatim>\<open>get\<close>.\<close>

definition dict_get :: "json \<Rightarrow> string \<Rightarrow> json \<Rightarrow> exn + json" where
  "dict_get j k d =
     (case j of
        JObj kvs \<Rightarrow> Inr (case map_of kvs k of None \<Rightarrow> d | Some v \<Rightarrow> v)
      | _ \<Rightarrow> Inl AttributeError)"

text \<open>
  Python values read back from a row: \<^verbatim>\<open>item.get(k, default)\<close>, the number a value
  stands for in \<^verbatim>\<open>+\<close> and in a comparison with an integer (a \<^verbatim>\<open>Decimal\<close> or a
  \<^verbatim>\<open>bool\<close>; a string or \<^verbatim>\<open>None\<close> raises \<^verbatim>\<open>TypeError\<close>), and truthiness.
\<close>

definition item_get :: "item \<Rightarrow> string \<Rightarrow> val \<Rightarrow> val" where
  "item_get it k d = (case it k of None \<Rightarrow> d | Some v \<Rightarrow> v)"

definition py_num :: "val \<Rightarrow> real option" where
  "py_num v = (case v of N x \<Rightarrow> Some x | BOOL b \<Rightarrow> Some (of_bool b) | _ \<Rightarrow> None)"

definition plus_one :: "val \<Rightarrow> exn + val" where
  "plus_one v = (case py_num v of None \<Rightarrow> Inl TypeError | Some x \<Rightarrow> Inr (N (x + 1)))"

definition truthy :: "val \<Rightarrow> bool" where
  "truthy v = (case v of BOOL b \<Rightarrow> b | N x \<Rightarrow> x \<noteq> 0 | S s \<Rightarrow> s \<noteq> [] | NULL \<Rightarrow> False)"

subsection \<open>Strings\<close>

text \<open>\<^verbatim>\<open>str.isspace\<close> on one ASCII character: codes 9..13 and 28..32.\<close>

definition is_space :: "char \<Rightarrow> bool" where
  "is_space c = (let n = (of_char c :: nat) in (9 \<le> n \<and> n \<le> 13) \<or> (28 \<le> n \<and> n \<le> 32))"

text \<open>\<^verbatim>\<open>s.strip()\<close>: leading and trailing whitespace removed.\<close>

definition strip :: "string \<Rightarrow> string" where
  "strip s = rev (dropWhile is_space (rev (dropWhile is_space s)))"

section \<open>ProfanityStage: \<^verbatim>\<open>profanity.py\<close>\<close>

text \<open>
  \<^verbatim>\<open>loc.replace('s3://', '')\<close> removes every occurrence of the scheme, left to right;
  \<^verbatim>\<open>.split('/', 1)\<close> cuts at the first slash, and unpacking into \<^verbatim>\<open>bucket, key\<close>
  raises \<^verbatim>\<open>ValueError\<close> when there is none (lines 66).
\<close>

function remove_scheme :: "string \<Rightarrow> string" where
  "remove_scheme s =
     (if s = [] then []
      else if take 5 s = ''s3://'' then remove_scheme (drop 5 s)
      else hd s # remove_scheme (tl s))"
  by pat_completeness auto
termination
  by (relation "measure length") auto

definition split_bucket_key :: "string \<Rightarrow> exn + (string \<times> string)" where
  "split_bucket_key loc =
     (let p = remove_scheme loc in
      if CHR ''/'' \<in> set p
      then Inr (takeWhile (\<lambda>c. c \<noteq> CHR ''/'') p, tl (dropWhile (\<lambda>c. c \<noteq> CHR ''/'') p))
      else Inl (ValueError ''not enough values to unpack''))"

text \<open>
  Lines 64--74: the review text and the summary, from the object the record refers to
  when the image carries no \<^verbatim>\<open>originalReviewText\<close>, from the image otherwise.
\<close>

definition fetch_texts :: "world \<Rightarrow> (string \<rightharpoonup> attr) \<Rightarrow> exn + (json \<times> json)" where
  "fetch_texts w new_image =
     (if new_image ''originalReviewText'' = None then
        (case image_S new_image ''originalTextLocation'' of Inl e \<Rightarrow> Inl e | Inr loc \<Rightarrow>
         case split_bucket_key loc of Inl e \<Rightarrow> Inl e | Inr (bucket, okey) \<Rightarrow>
         case s3_get_object w bucket okey of Inl e \<Rightarrow> Inl e | Inr obj \<Rightarrow>
         case json_loads obj of Inl e \<Rightarrow> Inl e | Inr review_data \<Rightarrow>
         case dict_get review_data ''reviewText'' (JStr []) of Inl e \<Rightarrow> Inl e | Inr review_text \<Rightarrow>
         case dict_get review_data ''summary'' (JStr []) of Inl e \<Rightarrow> Inl e | Inr summary_text \<Rightarrow>
           Inr (review_text, summary_text))
      else
        (case image_S new_image ''originalReviewText'' of Inl e \<Rightarrow> Inl e | Inr review_text \<Rightarrow>
         case image_S new_image ''originalSummary'' of Inl e \<Rightarrow> Inl e | Inr summary_text \<Rightarrow>
           Inr (JStr review_text, JStr summary_text)))"

text \<open>
  Line 78: \<^verbatim>\<open>pf.is_profane(review_text) or pf.is_profane(summary_text)\<close>. The classifier
  takes a string; \<^verbatim>\<open>or\<close> does not evaluate its right operand when the left is true.
\<close>

definition check_profane :: "libs \<Rightarrow> json \<Rightarrow> exn + bool" where
  "check_profane L t =
     (case t of
        JStr s \<Rightarrow> (case is_profane L s of None \<Rightarrow> Inl LibraryError | Some b \<Rightarrow> Inr b)
      | _ \<Rightarrow> Inl TypeError)"

definition has_profanity :: "libs \<Rightarrow> json \<Rightarrow> json \<Rightarrow> exn + bool" where
  "has_profanity L review_text summary_text =
     (case check_profane L review_text of
        Inl e \<Rightarrow> Inl e
      | Inr b \<Rightarrow> if b then Inr True else check_profane L summary_text)"

text \<open>
  Lines 106--157: the \<^verbatim>\<open>SET\<close> clauses of the update of an existing customer row, in
  the order the source appends them.
\<close>

definition customer_update_sets :: "item \<Rightarrow> bool \<Rightarrow> string \<Rightarrow> exn + (string \<times> val) list" where
  "customer_update_sets it has_prof current_time =
     (let current_total = item_get it ''totalReviews'' (N 0);
          current_violations = item_get it ''violationCount'' (N 0)
      in case plus_one current_total of Inl e \<Rightarrow> Inl e | Inr new_total \<Rightarrow>
         (let parts =
                [(''lastUpdated'', S current_time), (''lastReviewDate'', S current_time),
                 (''totalReviews'', new_total)]
                @ (if it ''isBanned'' = None then [(''isBanned'', BOOL False)] else [])
                @ (if it ''createdDate'' = None then [(''createdDate'', S current_time)] else [])
                @ (if it ''firstReviewDate'' = None then [(''firstReviewDate'', S current_time)] else [])
          in if has_prof then
               (case plus_one current_violations of Inl e \<Rightarrow> Inl e | Inr violations \<Rightarrow>
                  Inr (parts
                       @ [(''violationCount'', violations), (''lastViolationDate'', S current_time)]
                       @ (if it ''firstViolationDate'' = None
                          then [(''firstViolationDate'', S current_time)] else [])))
             else
               Inr (parts @ (if it ''violationCount'' = None then [(''violationCount'', N 0)] else []))))"

text \<open>Lines 165--179: the row of a customer seen for the first time.\<close>

definition new_customer_item :: "string \<Rightarrow> bool \<Rightarrow> string \<Rightarrow> item" where
  "new_customer_item user_id has_prof current_time =
     (let base = [''userId'' \<mapsto> S user_id,
                  ''totalReviews'' \<mapsto> N 1,
                  ''violationCount'' \<mapsto> N (if has_prof then 1 else 0),
                  ''isBanned'' \<mapsto> BOOL False,
                  ''createdDate'' \<mapsto> S current_time,
                  ''lastUpdated'' \<mapsto> S current_time,
                  ''lastReviewDate'' \<mapsto> S current_time,
                  ''firstReviewDate'' \<mapsto> S current_time]
      in if has_prof
         then base(''firstViolationDate'' \<mapsto> S current_time, ''lastViolationDate'' \<mapsto> S current_time)
         else base)"

text \<open>
  Lines 102--185, the body of the inner \<^verbatim>\<open>try\<close>: read the customer row, then update
  it or create it. The result is \<open>updated_customer\<close> and the new world.
\<close>

definition update_customer ::
  "world \<Rightarrow> string \<Rightarrow> string \<Rightarrow> bool \<Rightarrow> string \<Rightarrow> exn + (item \<times> world)" where
  "update_customer w customers_table user_id has_prof current_time =
     (case ddb_get_item w customers_table ''userId'' user_id of
        Inl e \<Rightarrow> Inl e
      | Inr (Some it) \<Rightarrow>
          (case customer_update_sets it has_prof current_time of
             Inl e \<Rightarrow> Inl e
           | Inr sets \<Rightarrow> ddb_update_item w customers_table ''userId'' user_id sets)
      | Inr None \<Rightarrow>
          (let new_item = new_customer_item user_id has_prof current_time in
           case ddb_put_item w customers_table new_item of
             Inl e \<Rightarrow> Inl e
           | Inr w' \<Rightarrow> Inr (new_item, w')))"

text \<open>
  Lines 190--207, the banning logic on \<open>updated_customer\<close>. The threshold is read
  from the Parameter Store only when the count is positive and the customer is not
  banned. The result tells whether the ban was written.
\<close>

definition apply_ban ::
  "libs \<Rightarrow> world \<Rightarrow> string \<Rightarrow> string \<Rightarrow> item \<Rightarrow> string \<Rightarrow> exn + (bool \<times> world)" where
  "apply_ban L w customers_table user_id updated_customer current_time =
     (case py_num (item_get updated_customer ''violationCount'' (N 0)) of
        None \<Rightarrow> Inl TypeError
      | Some violation_count \<Rightarrow>
          if violation_count > 0 \<and> \<not> truthy (item_get updated_customer ''isBanned'' (BOOL False)) then
            (case ssm_get_parameter w ''/app/config/profanity_threshold'' of Inl e \<Rightarrow> Inl e | Inr v \<Rightarrow>
             case py_int L v of None \<Rightarrow> Inl (ValueError ''invalid literal for int()'') | Some threshold \<Rightarrow>
               if violation_count \<ge> of_int threshold then
                 (case ddb_update_item w customers_table ''userId'' user_id
                         [(''isBanned'', BOOL True), (''banDate'', S current_time)] of
                    Inl e \<Rightarrow> Inl e
                  | Inr (_, w') \<Rightarrow> Inr (True, w'))
               else Inr (False, w))
          else Inr (False, w))"

text \<open>
  What became of one stream record: skipped (not an \<^verbatim>\<open>INSERT\<close>), completed (with
  \<open>has_profanity\<close> and whether the customer was banned now), stopped by the inner
  \<^verbatim>\<open>except\<close> (``Error processing customer''), stopped by the outer \<^verbatim>\<open>except\<close>
  (``Error processing record''), or an exception no \<^verbatim>\<open>try\<close> covers.
\<close>

datatype outcome =
    Skipped
  | Completed bool bool
  | CustomerError exn
  | RecordError exn
  | Uncaught exn

text \<open>
  Lines 61--211, the body of the outer \<^verbatim>\<open>try\<close>. \<^verbatim>\<open>datetime.now()\<close> is read twice:
  for the review row (line 92) and as \<open>current_time\<close> (line 100).
\<close>

definition profanity_try ::
  "libs \<Rightarrow> world \<Rightarrow> (string \<rightharpoonup> attr) \<Rightarrow> string \<Rightarrow> string \<Rightarrow> outcome \<times> world" where
  "profanity_try L w new_image review_id user_id =
     (case fetch_texts w new_image of Inl e \<Rightarrow> (RecordError e, w) | Inr (review_text, summary_text) \<Rightarrow>
      case has_profanity L review_text summary_text of Inl e \<Rightarrow> (RecordError e, w) | Inr has_prof \<Rightarrow>
      let w1 = w\<lparr>ticks := Suc (ticks w)\<rparr> in
      case ddb_update_item w1 ''reviews'' ''reviewId'' review_id
             [(''profanityCheckStatus'', S ''completed''), (''hasProfanity'', BOOL has_prof),
              (''lastUpdated'', S (now_iso L (ticks w)))] of
        Inl e \<Rightarrow> (RecordError e, w1) | Inr (_, w2) \<Rightarrow>
      case ssm_get_parameter w2 ''/app/config/customers_table'' of
        Inl e \<Rightarrow> (RecordError e, w2) | Inr customers_table \<Rightarrow>
      let current_time = now_iso L (ticks w2); w3 = w2\<lparr>ticks := Suc (ticks w2)\<rparr> in
      case update_customer w3 customers_table user_id has_prof current_time of
        Inl e \<Rightarrow> (CustomerError e, w3) | Inr (updated_customer, w4) \<Rightarrow>
      case apply_ban L w4 customers_table user_id updated_customer current_time of
        Inl e \<Rightarrow> (RecordError e, w4) | Inr (banned, w5) \<Rightarrow> (Completed has_prof banned, w5))"

text \<open>Lines 51--211, one iteration of the loop over \<^verbatim>\<open>event['Records']\<close>.\<close>

definition profanity_record :: "libs \<Rightarrow> world \<Rightarrow> stream_record \<Rightarrow> outcome \<times> world" where
  "profanity_record L w r =
     (if eventName r \<noteq> ''INSERT'' then (Skipped, w)
      else
        case image_S (NewImage r) ''reviewId'' of Inl e \<Rightarrow> (Uncaught e, w) | Inr review_id \<Rightarrow>
        case image_S (NewImage r) ''userId'' of Inl e \<Rightarrow> (Uncaught e, w) | Inr user_id \<Rightarrow>
          profanity_try L w (NewImage r) review_id user_id)"

text \<open>
  The loop: the outcomes in order, one per record attempted, and the final world. An
  uncaught exception ends the loop. The handler returns status 200, or raises; the
  outcomes stand for the lines it prints.
\<close>

fun profanity_records :: "libs \<Rightarrow> world \<Rightarrow> stream_record list \<Rightarrow> outcome list \<times> world" where
  "profanity_records L w [] = ([], w)"
| "profanity_records L w (r # rs) =
     (case profanity_record L w r of
        (Uncaught e, w') \<Rightarrow> ([Uncaught e], w')
      | (out, w') \<Rightarrow>
          (case profanity_records L w' rs of (outs, w'') \<Rightarrow> (out # outs, w'')))"

fun handler_result :: "outcome list \<Rightarrow> exn + nat" where
  "handler_result [] = Inr 200"
| "handler_result (Uncaught e # outs) = Inl e"
| "handler_result (out # outs) = handler_result outs"

definition profanity_lambda_handler ::
  "libs \<Rightarrow> world \<Rightarrow> stream_record list \<Rightarrow> (exn + nat) \<times> outcome list \<times> world" where
  "profanity_lambda_handler L w records =
     (case profanity_records L w records of (outs, w') \<Rightarrow> (handler_result outs, outs, w'))"

section \<open>SentimentStage: \<^verbatim>\<open>sentiment.py\<close>\<close>

text \<open>
  \<^verbatim>\<open>analyze_sentiment(summary, review_text, overall)\<close>, lines 75--121. The combined
  text is \<^verbatim>\<open>f"{summary.strip()} {review_text.strip()}"\<close>; the compound score comes
  from the scorer; \<open>rating_sentiment\<close> is \<^verbatim>\<open>None\<close>, \<^verbatim>\<open>"positive"\<close> or
  \<^verbatim>\<open>"negative"\<close>.
\<close>

definition combined_text :: "string \<Rightarrow> string \<Rightarrow> string" where
  "combined_text summary review_text = strip summary @ '' '' @ strip review_text"

definition rating_sentiment :: "real \<Rightarrow> string option" where
  "rating_sentiment overall =
     (if overall \<ge> 4 then Some ''positive''
      else if overall \<le> 2 then Some ''negative''
      else None)"

definition analyze_sentiment :: "libs \<Rightarrow> string \<Rightarrow> string \<Rightarrow> real \<Rightarrow> exn + string" where
  "analyze_sentiment L summary review_text overall =
     (case polarity_compound L (combined_text summary review_text) of
        None \<Rightarrow> Inl LibraryError
      | Some compound \<Rightarrow>
          (if compound \<ge> 0.5 \<or> (compound > 0 \<and> rating_sentiment overall = Some ''positive'')
           then Inr ''positive''
           else if compound \<le> -0.5 \<or> (compound < 0 \<and> rating_sentiment overall = Some ''negative'')
           then Inr ''negative''
           else Inr ''neutral''))"

text \<open>
  \<^verbatim>\<open>parse_s3_uri\<close>, lines 56--72: \<^verbatim>\<open>re.match(r"s3://([^/]+)/(.+)", uri)\<close>. The
  bucket is the non-empty run of characters before the first slash after the scheme;
  the key is what follows that slash up to the end of the line, and is not empty.
\<close>

definition parse_s3_uri :: "string \<Rightarrow> exn + (string \<times> string)" where
  "parse_s3_uri uri =
     (if take 5 uri \<noteq> ''s3://'' then Inl (ValueError (''Invalid S3 URI: '' @ uri))
      else
        (let rest = drop 5 uri;
             bucket = takeWhile (\<lambda>c. c \<noteq> CHR ''/'') rest;
             after = dropWhile (\<lambda>c. c \<noteq> CHR ''/'') rest;
             okey = takeWhile (\<lambda>c. c \<noteq> CHR 0x0A) (tl after)
         in if bucket = [] \<or> after = [] \<or> okey = []
            then Inl (ValueError (''Invalid S3 URI: '' @ uri))
            else Inr (bucket, okey)))"

text \<open>
  \<^verbatim>\<open>summary.strip()\<close> needs a string: the values read from the blob are parsed JSON
  (line 99 inside \<^verbatim>\<open>analyze_sentiment\<close>).
\<close>

definition analyze_json :: "libs \<Rightarrow> json \<Rightarrow> json \<Rightarrow> real \<Rightarrow> exn + string" where
  "analyze_json L summary review_text overall =
     (case (summary, review_text) of
        (JStr s, JStr t) \<Rightarrow> analyze_sentiment L s t overall
      | _ \<Rightarrow> Inl AttributeError)"

text \<open>
  What became of one stream record in the sentiment handler: skipped, the sentiment
  written, the update refused (caught and printed, lines 189--190), or an exception no
  \<^verbatim>\<open>try\<close> covers.
\<close>

datatype sentiment_outcome =
    SentimentSkipped
  | SentimentUpdated string
  | SentimentUpdateFailed exn
  | SentimentUncaught exn

text \<open>
  Lines 146--176, one iteration of the loop up to the classification: none of it is in
  a \<^verbatim>\<open>try\<close>. The result is the outcome that ends the iteration, or the review
  identifier and its sentiment.
\<close>

definition sentiment_analysis ::
  "libs \<Rightarrow> world \<Rightarrow> stream_record \<Rightarrow> sentiment_outcome + (string \<times> string)" where
  "sentiment_analysis L w r =
     (if eventName r \<noteq> ''INSERT'' then Inl SentimentSkipped
      else
        case image_S (NewImage r) ''reviewId'' of Inl e \<Rightarrow> Inl (SentimentUncaught e) | Inr review_id \<Rightarrow>
        let preprocessed_uri =
              (case NewImage r ''preprocessedLocation'' of Some (AttrS u) \<Rightarrow> u | _ \<Rightarrow> [])
        in
        case parse_s3_uri preprocessed_uri of Inl e \<Rightarrow> Inl (SentimentUncaught e) | Inr (bucket, okey) \<Rightarrow>
        case s3_get_object w bucket okey of Inl e \<Rightarrow> Inl (SentimentUncaught e) | Inr obj \<Rightarrow>
        case json_loads obj of Inl e \<Rightarrow> Inl (SentimentUncaught e) | Inr data \<Rightarrow>
        case dict_get data ''preprocessedSummary'' (JStr []) of
          Inl e \<Rightarrow> Inl (SentimentUncaught e) | Inr summary \<Rightarrow>
        case dict_get data ''preprocessedReviewText'' (JStr []) of
          Inl e \<Rightarrow> Inl (SentimentUncaught e) | Inr review_text \<Rightarrow>
        let overall_str = (case NewImage r ''overallRating'' of Some (AttrN n) \<Rightarrow> n | _ \<Rightarrow> ''3'');
            overall = (case py_float L overall_str of None \<Rightarrow> 3 | Some x \<Rightarrow> x)
        in
        case analyze_json L summary review_text overall of
          Inl e \<Rightarrow> Inl (SentimentUncaught e) | Inr sentiment \<Rightarrow> Inr (review_id, sentiment))"

text \<open>
  Lines 146--190, one iteration of the loop: the classification, then \<^verbatim>\<open>update_item\<close>,
  the only statement in a \<^verbatim>\<open>try\<close>.
\<close>

definition sentiment_record ::
  "libs \<Rightarrow> world \<Rightarrow> string \<Rightarrow> stream_record \<Rightarrow> sentiment_outcome \<times> world" where
  "sentiment_record L w reviews_table_name r =
     (case sentiment_analysis L w r of
        Inl out \<Rightarrow> (out, w)
      | Inr (review_id, sentiment) \<Rightarrow>
          (case ddb_update_item w reviews_table_name ''reviewId'' review_id
                  [(''sentiment'', S sentiment), (''sentimentAnalysisStatus'', S ''processed'')] of
             Inl e \<Rightarrow> (SentimentUpdateFailed e, w)
           | Inr (_, w') \<Rightarrow> (SentimentUpdated sentiment, w')))"

fun sentiment_records ::
  "libs \<Rightarrow> world \<Rightarrow> string \<Rightarrow> stream_record list \<Rightarrow> sentiment_outcome list \<times> world" where
  "sentiment_records L w tn [] = ([], w)"
| "sentiment_records L w tn (r # rs) =
     (case sentiment_record L w tn r of
        (SentimentUncaught e, w') \<Rightarrow> ([SentimentUncaught e], w')
      | (out, w') \<Rightarrow>
          (case sentiment_records L w' tn rs of (outs, w'') \<Rightarrow> (out # outs, w'')))"

fun sentiment_result :: "sentiment_outcome list \<Rightarrow> exn + nat" where
  "sentiment_result [] = Inr 200"
| "sentiment_result (SentimentUncaught e # outs) = Inl e"
| "sentiment_result (out # outs) = sentiment_result outs"

text \<open>
  \<^verbatim>\<open>lambda_handler\<close>, lines 124--195: the table name is read from the Parameter Store
  first, outside any \<^verbatim>\<open>try\<close>; then the loop. The result is the status code, or the
  exception raised, with the outcomes of the records attempted.
\<close>

definition sentiment_lambda_handler ::
  "libs \<Rightarrow> world \<Rightarrow> stream_record list \<Rightarrow> (exn + nat) \<times> sentiment_outcome list \<times> world" where
  "sentiment_lambda_handler L w records =
     (case ssm_get_parameter w ''/app/config/reviews_table'' of
        Inl e \<Rightarrow> (Inl e, [], w)
      | Inr reviews_table_name \<Rightarrow>
          (case sentiment_records L w reviews_table_name records of
             (outs, w') \<Rightarrow> (sentiment_result outs, outs, w')))"

text \<open>
  The classification policy in the words of the specification (section 4.3): the
  rating-implied sentiment, then the three rules in order.
\<close>

datatype implied = ImpliedPositive | ImpliedNegative | NoImplied

definition spec_rating_implied :: "real \<Rightarrow> implied" where
  "spec_rating_implied rating =
     (if rating \<ge> 4 then ImpliedPositive
      else if rating \<le> 2 then ImpliedNegative
      else NoImplied)"

definition spec_sentiment_policy :: "real \<Rightarrow> real \<Rightarrow> string" where
  "spec_sentiment_policy compound rating =
     (if compound \<ge> 0.5 \<or> (compound > 0 \<and> spec_rating_implied rating = ImpliedPositive)
      then ''positive''
      else if compound \<le> -0.5 \<or> (compound < 0 \<and> spec_rating_implied rating = ImpliedNegative)
      then ''negative''
      else ''neutral'')"

section \<open>PreprocessStage: \<^verbatim>\<open>preprocess.py\<close>\<close>

subsection \<open>MD5\<close>

text \<open>
  \<^verbatim>\<open>hashlib.md5(data).hexdigest()\<close> (RFC 1321) on a byte string: padding to a multiple
  of 64 bytes with the bit length, 64 steps per block on four 32-bit words, and the
  digest as lower-case hexadecimal.
\<close>

type_synonym w32 = "32 word"

definition md5_K :: "w32 list" where
  "md5_K =
     [0xd76aa478, 0xe8c7b756, 0x242070db, 0xc1bdceee, 0xf57c0faf, 0x4787c62a, 0xa8304613,
      0xfd469501, 0x698098d8, 0x8b44f7af, 0xffff5bb1, 0x895cd7be, 0x6b901122, 0xfd987193,
      0xa679438e, 0x49b40821, 0xf61e2562, 0xc040b340, 0x265e5a51, 0xe9b6c7aa, 0xd62f105d,
      0x02441453, 0xd8a1e681, 0xe7d3fbc8, 0x21e1cde6, 0xc33707d6, 0xf4d50d87, 0x455a14ed,
      0xa9e3e905, 0xfcefa3f8, 0x676f02d9, 0x8d2a4c8a, 0xfffa3942, 0x8771f681, 0x6d9d6122,
      0xfde5380c, 0xa4beea44, 0x4bdecfa9, 0xf6bb4b60, 0xbebfbc70, 0x289b7ec6, 0xeaa127fa,
      0xd4ef3085, 0x04881d05, 0xd9d4d039, 0xe6db99e5, 0x1fa27cf8, 0xc4ac5665, 0xf4292244,
      0x432aff97, 0xab9423a7, 0xfc93a039, 0x655b59c3, 0x8f0ccc92, 0xffeff47d, 0x85845dd1,
      0x6fa87e4f, 0xfe2ce6e0, 0xa3014314, 0x4e0811a1, 0xf7537e82, 0xbd3af235, 0x2ad7d2bb,
      0xeb86d391]"

definition md5_S :: "nat list" where
  "md5_S =
     [7, 12, 17, 22, 7, 12, 17, 22, 7, 12, 17, 22, 7, 12, 17, 22,
      5, 9, 14, 20, 5, 9, 14, 20, 5, 9, 14, 20, 5, 9, 14, 20,
      4, 11, 16, 23, 4, 11, 16, 23, 4, 11, 16, 23, 4, 11, 16, 23,
      6, 10, 15, 21, 6, 10, 15, 21, 6, 10, 15, 21, 6, 10, 15, 21]"

definition rotl32 :: "nat \<Rightarrow> w32 \<Rightarrow> w32" where
  "rotl32 n x = push_bit n x OR drop_bit (32 - n) x"

fun md5_step :: "w32 list \<Rightarrow> nat \<Rightarrow> w32 \<times> w32 \<times> w32 \<times> w32 \<Rightarrow> w32 \<times> w32 \<times> w32 \<times> w32" where
  "md5_step M i (a, b, c, d) =
     (let f = (if i < 16 then (b AND c) OR (NOT b AND d)
               else if i < 32 then (d AND b) OR (NOT d AND c)
               else if i < 48 then b XOR c XOR d
               else c XOR (b OR NOT d));
          g = (if i < 16 then i
               else if i < 32 then (5 * i + 1) mod 16
               else if i < 48 then (3 * i + 5) mod 16
               else (7 * i) mod 16)
      in (d, b + rotl32 (md5_S ! i) (f + a + md5_K ! i + M ! g), b, c))"

fun le_word :: "nat list \<Rightarrow> w32" where
  "le_word [] = 0"
| "le_word (b # bs) = of_nat b + push_bit 8 (le_word bs)"

fun chunk_words :: "nat \<Rightarrow> nat list \<Rightarrow> w32 list" where
  "chunk_words 0 bs = []"
| "chunk_words (Suc n) bs = le_word (take 4 bs) # chunk_words n (drop 4 bs)"

fun le_bytes :: "nat \<Rightarrow> nat \<Rightarrow> nat list" where
  "le_bytes 0 v = []"
| "le_bytes (Suc n) v = (v mod 256) # le_bytes n (v div 256)"

definition md5_pad :: "nat list \<Rightarrow> nat list" where
  "md5_pad bs = bs @ [128] @ replicate ((119 - length bs mod 64) mod 64) 0
                   @ le_bytes 8 (8 * length bs)"

definition md5_block :: "w32 \<times> w32 \<times> w32 \<times> w32 \<Rightarrow> nat list \<Rightarrow> w32 \<times> w32 \<times> w32 \<times> w32" where
  "md5_block st bs =
     (case st of (a0, b0, c0, d0) \<Rightarrow>
        (case fold (md5_step (chunk_words 16 bs)) [0..<64] st of
           (a, b, c, d) \<Rightarrow> (a0 + a, b0 + b, c0 + c, d0 + d)))"

fun md5_blocks :: "nat \<Rightarrow> w32 \<times> w32 \<times> w32 \<times> w32 \<Rightarrow> nat list \<Rightarrow> w32 \<times> w32 \<times> w32 \<times> w32" where
  "md5_blocks 0 st bs = st"
| "md5_blocks (Suc n) st bs = md5_blocks n (md5_block st (take 64 bs)) (drop 64 bs)"

definition hex_byte :: "nat \<Rightarrow> string" where
  "hex_byte b = [''0123456789abcdef'' ! (b div 16), ''0123456789abcdef'' ! (b mod 16)]"

definition word_bytes :: "w32 \<Rightarrow> nat list" where
  "word_bytes w = map (\<lambda>k. unat (drop_bit (8 * k) w AND 255)) [0, 1, 2, 3]"

definition md5_hexdigest :: "string \<Rightarrow> string" where
  "md5_hexdigest s =
     (let p = md5_pad (map of_char s) in
      case md5_blocks (length p div 64) (0x67452301, 0xefcdab89, 0x98badcfe, 0x10325476) p of
        (a, b, c, d) \<Rightarrow> concat (map hex_byte (concat (map word_bytes [a, b, c, d]))))"

subsection \<open>Python on parsed JSON\<close>

text \<open>
  \<^verbatim>\<open>str(x)\<close> as an f-string applies it: a string is itself; numbers and containers
  are rendered by the library. \<^verbatim>\<open>field in x\<close>: a key of a dict, an element of a
  list, a substring of a string; \<^verbatim>\<open>TypeError\<close> otherwise. \<^verbatim>\<open>x[field]\<close> on a dict.
  Truthiness, \<^verbatim>\<open>len\<close>, \<^verbatim>\<open>x[i]\<close> and \<^verbatim>\<open>float(x)\<close>.
\<close>

definition fstr :: "libs \<Rightarrow> json \<Rightarrow> string" where
  "fstr L j =
     (case j of
        JStr s \<Rightarrow> s
      | JNull \<Rightarrow> ''None''
      | JBool b \<Rightarrow> (if b then ''True'' else ''False'')
      | _ \<Rightarrow> py_repr L j)"

definition is_substring :: "string \<Rightarrow> string \<Rightarrow> bool" where
  "is_substring f s = list_ex (\<lambda>i. take (length f) (drop i s) = f) [0..<Suc (length s)]"

definition py_in :: "string \<Rightarrow> json \<Rightarrow> exn + bool" where
  "py_in field x =
     (case x of
        JObj d \<Rightarrow> Inr (map_of d field \<noteq> None)
      | JArr xs \<Rightarrow> Inr (JStr field \<in> set xs)
      | JStr s \<Rightarrow> Inr (is_substring field s)
      | _ \<Rightarrow> Inl TypeError)"

definition dict_index :: "(string \<times> json) list \<Rightarrow> string \<Rightarrow> exn + json" where
  "dict_index d k = (case map_of d k of None \<Rightarrow> Inl (KeyError k) | Some v \<Rightarrow> Inr v)"

definition json_truthy :: "json \<Rightarrow> bool" where
  "json_truthy j =
     (case j of
        JNull \<Rightarrow> False
      | JBool b \<Rightarrow> b
      | JNum x \<Rightarrow> x \<noteq> 0
      | JStr s \<Rightarrow> s \<noteq> []
      | JArr xs \<Rightarrow> xs \<noteq> []
      | JObj d \<Rightarrow> d \<noteq> [])"

definition py_len :: "json \<Rightarrow> exn + nat" where
  "py_len j =
     (case j of
        JStr s \<Rightarrow> Inr (length s)
      | JArr xs \<Rightarrow> Inr (length xs)
      | JObj d \<Rightarrow> Inr (length (remdups (map fst d)))
      | _ \<Rightarrow> Inl TypeError)"

definition py_item :: "json \<Rightarrow> nat \<Rightarrow> exn + json" where
  "py_item j i =
     (case j of
        JStr s \<Rightarrow> (if i < length s then Inr (JStr [s ! i]) else Inl IndexError)
      | JArr xs \<Rightarrow> (if i < length xs then Inr (xs ! i) else Inl IndexError)
      | JObj d \<Rightarrow> Inl (KeyError ''0'')
      | _ \<Rightarrow> Inl TypeError)"

definition py_float_json :: "libs \<Rightarrow> json \<Rightarrow> exn + real" where
  "py_float_json L j =
     (case j of
        JNum x \<Rightarrow> Inr x
      | JBool b \<Rightarrow> Inr (of_bool b)
      | JStr s \<Rightarrow> (case py_float L s of
                     None \<Rightarrow> Inl (ValueError ''could not convert string to float'')
                   | Some x \<Rightarrow> Inr x)
      | _ \<Rightarrow> Inl TypeError)"

text \<open>\<^verbatim>\<open>Decimal(str(x))\<close>, and the serialisation boto3 applies to a value of the item.\<close>

definition decimal_of :: "libs \<Rightarrow> json \<Rightarrow> exn + val" where
  "decimal_of L j =
     (case py_decimal L (fstr L j) of None \<Rightarrow> Inl LibraryError | Some x \<Rightarrow> Inr (N x))"

definition serialize :: "libs \<Rightarrow> json \<Rightarrow> exn + val" where
  "serialize L j = (case ddb_serialize L j of None \<Rightarrow> Inl TypeError | Some v \<Rightarrow> Inr v)"

text \<open>\<^verbatim>\<open>len(text.split())\<close>: the number of maximal runs of non-whitespace characters.\<close>

fun count_words :: "bool \<Rightarrow> string \<Rightarrow> nat" where
  "count_words in_word [] = 0"
| "count_words in_word (c # cs) =
     (if is_space c then count_words False cs
      else (if in_word then 0 else 1) + count_words True cs)"

subsection \<open>The functions of \<^verbatim>\<open>preprocess.py\<close>\<close>

text \<open>Reading the clock takes one reading.\<close>

definition tick :: "world \<Rightarrow> world" where
  "tick w = w\<lparr>ticks := Suc (ticks w)\<rparr>"

text \<open>\<^verbatim>\<open>str(e)\<close> of an exception, as it appears in a message.\<close>

definition exn_text :: "exn \<Rightarrow> string" where
  "exn_text e =
     (case e of
        KeyError k \<Rightarrow> k
      | ValueError m \<Rightarrow> m
      | ClientError m \<Rightarrow> m
      | TypeError \<Rightarrow> ''TypeError''
      | AttributeError \<Rightarrow> ''AttributeError''
      | IndexError \<Rightarrow> ''list index out of range''
      | JSONDecodeError \<Rightarrow> ''JSONDecodeError''
      | LibraryError \<Rightarrow> ''LibraryError'')"

text \<open>\<^verbatim>\<open>preprocess_text\<close>, lines 70--114; the NLP steps are the library's.\<close>

definition preprocess_text :: "libs \<Rightarrow> json \<Rightarrow> exn + string" where
  "preprocess_text L text =
     (if \<not> json_truthy text then Inr []
      else case text of
        JStr s \<Rightarrow>
          (if strip s = [] then Inr []
           else (case nlp_canonical L s of None \<Rightarrow> Inl LibraryError | Some c \<Rightarrow> Inr c))
      | _ \<Rightarrow> Inl AttributeError)"

text \<open>\<^verbatim>\<open>get_ssm_param\<close>, lines 117--136: any failure becomes a \<^verbatim>\<open>ValueError\<close>.\<close>

definition get_ssm_param :: "world \<Rightarrow> string \<Rightarrow> exn + string" where
  "get_ssm_param w name =
     (case ssm_get_parameter w name of
        Inl e \<Rightarrow> Inl (ValueError (''SSM Error ('' @ name @ ''): '' @ exn_text e))
      | Inr v \<Rightarrow> Inr v)"

text \<open>
  \<^verbatim>\<open>parse_review_time\<close>, lines 139--161. Only \<^verbatim>\<open>strptime\<close> is inside a \<^verbatim>\<open>try\<close>;
  the fallback reads the clock.
\<close>

definition parse_review_time :: "libs \<Rightarrow> world \<Rightarrow> (string \<times> json) list \<Rightarrow> exn + (string \<times> world)" where
  "parse_review_time L w review =
     (case map_of review ''unixReviewTime'' of
        Some t \<Rightarrow>
          (case utcfromtimestamp_iso L t of
             None \<Rightarrow> Inl LibraryError
           | Some ts \<Rightarrow> Inr (ts, w))
      | None \<Rightarrow>
          (case map_of review ''reviewTime'' of
             Some t \<Rightarrow>
               (case strptime_iso L t of
                  Some ts \<Rightarrow> Inr (ts, w)
                | None \<Rightarrow> Inr (utcnow_iso L (ticks w), tick w))
           | None \<Rightarrow> Inr (utcnow_iso L (ticks w), tick w)))"

text \<open>
  \<^verbatim>\<open>generate_review_id\<close>, lines 164--187. Without a \<^verbatim>\<open>reviewId\<close> the hash input is
  \<^verbatim>\<open>f"{asin}_{reviewerID}_{review.get('unixReviewTime', utcnow().timestamp())}"\<close>;
  the default argument of \<^verbatim>\<open>get\<close> is evaluated whether or not the key is present, so
  the clock is read in either case and its reading used only when the key is absent.
\<close>

definition generate_review_id :: "libs \<Rightarrow> world \<Rightarrow> (string \<times> json) list \<Rightarrow> exn + (json \<times> world)" where
  "generate_review_id L w review =
     (case map_of review ''reviewId'' of
        Some rid \<Rightarrow> Inr (rid, w)
      | None \<Rightarrow>
          (case dict_index review ''asin'' of
             Inl e \<Rightarrow> Inl e
           | Inr asin \<Rightarrow>
               (case dict_index review ''reviewerID'' of
                  Inl e \<Rightarrow> Inl e
                | Inr reviewer \<Rightarrow>
                    (let stamp = (case map_of review ''unixReviewTime'' of
                                    Some t \<Rightarrow> fstr L t
                                  | None \<Rightarrow> utcnow_timestamp L (ticks w));
                         hash_input = fstr L asin @ ''_'' @ fstr L reviewer @ ''_'' @ stamp;
                         hash_suffix = take 8 (md5_hexdigest hash_input)
                     in Inr (JStr (fstr L asin @ ''_'' @ fstr L reviewer @ ''_'' @ hash_suffix),
                             tick w)))))"

text \<open>Lines 233--236: the first required field that is missing raises.\<close>

definition required_fields :: "string list" where
  "required_fields = [''reviewerID'', ''asin'', ''reviewText'', ''overall'']"

fun validate :: "json \<Rightarrow> string list \<Rightarrow> exn + unit" where
  "validate review [] = Inr ()"
| "validate review (field # rest) =
     (case py_in field review of
        Inl e \<Rightarrow> Inl e
      | Inr present \<Rightarrow>
          if present then validate review rest
          else Inl (ValueError (''Missing required field: '' @ field)))"

text \<open>An S3 event record: \<^verbatim>\<open>record["bucket"]["name"]\<close> and \<^verbatim>\<open>record["object"]["key"]\<close>.\<close>

record s3_record =
  bucket_name :: string
  object_key :: string

text \<open>\<^verbatim>\<open>Decimal(str(helpful[i])) if len(helpful) > i else Decimal('0')\<close>, lines 292--293.\<close>

definition votes :: "libs \<Rightarrow> json \<Rightarrow> nat \<Rightarrow> exn + val" where
  "votes L helpful i =
     (case py_len helpful of
        Inl e \<Rightarrow> Inl e
      | Inr n \<Rightarrow>
          if n > i then (case py_item helpful i of Inl e \<Rightarrow> Inl e | Inr v \<Rightarrow> decimal_of L v)
          else Inr (N 0))"

text \<open>
  A statement of the \<^verbatim>\<open>try\<close> body that may raise: the exception leaves the body with
  the world as it is at that statement; otherwise the body goes on with the value.
\<close>

definition on_success ::
  "exn + 'a \<Rightarrow> world \<Rightarrow> ('a \<Rightarrow> (exn + 'b) \<times> world) \<Rightarrow> (exn + 'b) \<times> world" where
  "on_success m w k = (case m of Inl e \<Rightarrow> (Inl e, w) | Inr v \<Rightarrow> k v)"

text \<open>
  Lines 270--303 and 305: the item, built after the blob is written, and
  \<^verbatim>\<open>put_item\<close>, where boto3 serialises the values taken from the payload.
\<close>

definition store_item ::
  "libs \<Rightarrow> world \<Rightarrow> string \<Rightarrow> string \<Rightarrow> string \<Rightarrow> (string \<times> json) list
     \<Rightarrow> json \<Rightarrow> string \<Rightarrow> string \<Rightarrow> string \<Rightarrow> (exn + (json \<times> string)) \<times> world" where
  "store_item L w3 processed_bucket reviews_table source review review_id processed_key
       pre_text pre_summary =
     (let category = (case map_of review ''category'' of
                        None \<Rightarrow> JStr ''uncategorized'' | Some v \<Rightarrow> v);
          reviewer_name = (case map_of review ''reviewerName'' of None \<Rightarrow> JStr [] | Some v \<Rightarrow> v);
          helpful = (case map_of review ''helpful'' of
                       None \<Rightarrow> JArr [JNum 0, JNum 0] | Some v \<Rightarrow> v)
      in
      on_success (dict_index review ''reviewerID'') w3 (\<lambda>reviewer.
      on_success (dict_index review ''asin'') w3 (\<lambda>asin.
      on_success (dict_index review ''overall'') w3 (\<lambda>overall.
      on_success (decimal_of L overall) w3 (\<lambda>rating.
      on_success (parse_review_time L w3 review) w3 (\<lambda>(stamp, w4).
      on_success (votes L helpful 0) w4 (\<lambda>helpful_votes.
      on_success (votes L helpful 1) w4 (\<lambda>total_votes.
      let created = utcnow_iso L (ticks w4); w5 = tick w4 in
      on_success (serialize L review_id) w5 (\<lambda>v_id.
      on_success (serialize L reviewer) w5 (\<lambda>v_user.
      on_success (serialize L asin) w5 (\<lambda>v_product.
      on_success (serialize L reviewer_name) w5 (\<lambda>v_name.
      on_success (serialize L category) w5 (\<lambda>v_category.
      let dynamo_item =
            [''reviewId'' \<mapsto> v_id, ''userId'' \<mapsto> v_user, ''productId'' \<mapsto> v_product,
             ''originalTextLocation'' \<mapsto> S source,
             ''preprocessedLocation'' \<mapsto> S (''s3://'' @ processed_bucket @ ''/'' @ processed_key),
             ''overallRating'' \<mapsto> rating, ''timestamp'' \<mapsto> S stamp,
             ''wordCount'' \<mapsto> N (real (count_words False pre_text)),
             ''summaryWordCount'' \<mapsto> N (real (count_words False pre_summary)),
             ''helpfulVotes'' \<mapsto> helpful_votes, ''totalVotes'' \<mapsto> total_votes,
             ''reviewerName'' \<mapsto> v_name, ''productCategory'' \<mapsto> v_category,
             ''processingStatus'' \<mapsto> S ''preprocessed'', ''createdAt'' \<mapsto> S created,
             ''hasProfanity'' \<mapsto> NULL, ''sentiment'' \<mapsto> NULL,
             ''profanityCheckStatus'' \<mapsto> S ''pending'',
             ''sentimentAnalysisStatus'' \<mapsto> S ''pending'']
      in
      on_success (ddb_put_item w5 reviews_table dynamo_item) w5 (\<lambda>w6.
        (Inr (review_id, processed_key), w6)))))))))))))))"

text \<open>
  Lines 238--267, for a payload that is a dict: the identifier, the processed
  document, and the first write, \<^verbatim>\<open>s3.put_object\<close>. An exception after it leaves the
  blob in place.
\<close>

definition preprocess_store ::
  "libs \<Rightarrow> world \<Rightarrow> string \<Rightarrow> string \<Rightarrow> string \<Rightarrow> (string \<times> json) list
     \<Rightarrow> (exn + (json \<times> string)) \<times> world" where
  "preprocess_store L w processed_bucket reviews_table source review =
     on_success (generate_review_id L w review) w (\<lambda>(review_id, w1).
     let review_text = (case map_of review ''reviewText'' of None \<Rightarrow> JStr [] | Some v \<Rightarrow> v);
         summary_text = (case map_of review ''summary'' of None \<Rightarrow> JStr [] | Some v \<Rightarrow> v);
         category = (case map_of review ''category'' of
                       None \<Rightarrow> JStr ''uncategorized'' | Some v \<Rightarrow> v);
         reviewer_name = (case map_of review ''reviewerName'' of None \<Rightarrow> JStr [] | Some v \<Rightarrow> v);
         helpful = (case map_of review ''helpful'' of
                      None \<Rightarrow> JArr [JNum 0, JNum 0] | Some v \<Rightarrow> v)
     in
     on_success (dict_index review ''reviewerID'') w1 (\<lambda>reviewer.
     on_success (dict_index review ''asin'') w1 (\<lambda>asin.
     on_success (dict_index review ''overall'') w1 (\<lambda>overall.
     on_success (py_float_json L overall) w1 (\<lambda>overall_float.
     on_success (preprocess_text L review_text) w1 (\<lambda>pre_text.
     on_success (preprocess_text L summary_text) w1 (\<lambda>pre_summary.
     on_success (parse_review_time L w1 review) w1 (\<lambda>(stamp, w2).
     let processed_data =
           JObj [(''reviewId'', review_id), (''reviewerID'', reviewer), (''asin'', asin),
                 (''overall'', JNum overall_float),
                 (''preprocessedReviewText'', JStr pre_text),
                 (''preprocessedSummary'', JStr pre_summary),
                 (''originalReviewText'', review_text), (''originalSummary'', summary_text),
                 (''category'', category), (''reviewerName'', reviewer_name),
                 (''timestamp'', JStr stamp), (''helpful'', helpful)];
         processed_key = ''preprocessed/'' @ fstr L reviewer @ ''/'' @ fstr L review_id @ ''.json''
     in
     on_success (s3_put_object w2 processed_bucket processed_key (JsonDoc processed_data)) w2
       (\<lambda>w3. store_item L w3 processed_bucket reviews_table source review review_id
                processed_key pre_text pre_summary)))))))))"

text \<open>
  Lines 210--236, the start of the \<^verbatim>\<open>try\<close>: the three parameters, the first S3
  record of the event, the object, its JSON, the validation. A payload that passes the
  validation without being a dict fails at the first subscript.
\<close>

definition preprocess_try ::
  "libs \<Rightarrow> world \<Rightarrow> s3_record list \<Rightarrow> (exn + (json \<times> string)) \<times> world" where
  "preprocess_try L w records =
     on_success (get_ssm_param w ''/app/config/raw_bucket'') w (\<lambda>raw_bucket.
     on_success (get_ssm_param w ''/app/config/processed_bucket'') w (\<lambda>processed_bucket.
     on_success (get_ssm_param w ''/app/config/reviews_table'') w (\<lambda>reviews_table.
     on_success (case records of [] \<Rightarrow> Inl IndexError | r # _ \<Rightarrow> Inr r) w (\<lambda>r.
     on_success (s3_get_object w (bucket_name r) (object_key r)) w (\<lambda>obj.
     on_success (json_loads obj) w (\<lambda>payload.
     on_success (validate payload required_fields) w (\<lambda>_.
     case payload of
       JObj review \<Rightarrow>
         preprocess_store L w processed_bucket reviews_table
           (''s3://'' @ bucket_name r @ ''/'' @ object_key r) review
     | _ \<Rightarrow> (Inl TypeError, w))))))))"

text \<open>
  \<^verbatim>\<open>lambda_handler\<close>, lines 190--326: status 200 with the identifier and the blob key,
  or status 500 with the text of the exception caught.
\<close>

datatype response = Success json string | Failure exn

definition preprocess_lambda_handler ::
  "libs \<Rightarrow> world \<Rightarrow> s3_record list \<Rightarrow> response \<times> world" where
  "preprocess_lambda_handler L w records =
     (case preprocess_try L w records of
        (Inl e, w') \<Rightarrow> (Failure e, w')
      | (Inr (review_id, processed_key), w') \<Rightarrow> (Success review_id processed_key, w'))"

section \<open>Observations on the world\<close>

text \<open>
  What the properties below read off a world: a row of a table, an attribute of a row,
  a counter of a customer row as the handler reads it (\<^verbatim>\<open>item.get(name, 0)\<close>, and 0
  for a customer not yet seen), the stored ban flag as the handler reads it
  (\<^verbatim>\<open>get('isBanned', False)\<close>), and being banned with a given ban date.
\<close>

definition row_of :: "world \<Rightarrow> string \<Rightarrow> string \<Rightarrow> item option" where
  "row_of w tname k = (case tables w tname of None \<Rightarrow> None | Some t \<Rightarrow> rows t k)"

definition customer_attr :: "world \<Rightarrow> string \<Rightarrow> string \<Rightarrow> string \<Rightarrow> val option" where
  "customer_attr w tname k a = (case row_of w tname k of None \<Rightarrow> None | Some it \<Rightarrow> it a)"

definition counter :: "world \<Rightarrow> string \<Rightarrow> string \<Rightarrow> string \<Rightarrow> real option" where
  "counter w tname k a =
     (case row_of w tname k of None \<Rightarrow> Some 0 | Some it \<Rightarrow> py_num (item_get it a (N 0)))"

definition stored_is_banned :: "world \<Rightarrow> string \<Rightarrow> string \<Rightarrow> val" where
  "stored_is_banned w tname k =
     (case row_of w tname k of None \<Rightarrow> BOOL False
      | Some it \<Rightarrow> item_get it ''isBanned'' (BOOL False))"

definition banned_at :: "world \<Rightarrow> string \<Rightarrow> string \<Rightarrow> val option \<Rightarrow> bool" where
  "banned_at w tname k d =
     (case row_of w tname k of None \<Rightarrow> False
      | Some it \<Rightarrow> it ''isBanned'' = Some (BOOL True) \<and> it ''banDate'' = d)"

text \<open>A sequence of invocations of the profanity handler, one per delivered batch.\<close>

definition profanity_runs :: "libs \<Rightarrow> world \<Rightarrow> stream_record list list \<Rightarrow> world" where
  "profanity_runs L w batches =
     fold (\<lambda>records w'. snd (snd (profanity_lambda_handler L w' records))) batches w"

text \<open>
  The \<^verbatim>\<open>SET\<close> clauses written at the transition to banned (line 201), and the
  clauses every update of an existing customer row starts with (lines 113--132), given
  the old \<open>totalReviews\<close>.
\<close>

definition ban_sets :: "string \<Rightarrow> (string \<times> val) list" where
  "ban_sets now = [(''isBanned'', BOOL True), (''banDate'', S now)]"

definition base_sets :: "item \<Rightarrow> string \<Rightarrow> real \<Rightarrow> (string \<times> val) list" where
  "base_sets it now x =
     [(''lastUpdated'', S now), (''lastReviewDate'', S now), (''totalReviews'', N (x + 1))]
     @ (if it ''isBanned'' = None then [(''isBanned'', BOOL False)] else [])
     @ (if it ''createdDate'' = None then [(''createdDate'', S now)] else [])
     @ (if it ''firstReviewDate'' = None then [(''firstReviewDate'', S now)] else [])"

text \<open>
  The key schema of the tables, and the world after the write of SentimentStage for a
  review (the world itself when \<^verbatim>\<open>update_item\<close> is refused).
\<close>

definition key_schema :: "world \<Rightarrow> string \<rightharpoonup> string" where
  "key_schema w = map_option key_attr \<circ> tables w"


text \<open>The world with one row of one table replaced (the world itself without the table).\<close>

definition put_row :: "world \<Rightarrow> string \<Rightarrow> string \<Rightarrow> item \<Rightarrow> world" where
  "put_row w tn k it =
     (case tables w tn of
        None \<Rightarrow> w
      | Some t \<Rightarrow> w\<lparr>tables := (tables w)(tn \<mapsto> t\<lparr>rows := (rows t)(k \<mapsto> it)\<rparr>)\<rparr>)"

section \<open>Fixtures\<close>

text \<open>
  Concrete library doubles and worlds, on which the theorems below are instantiated:
  a classifier that flags texts starting with a swear word, a scorer given by a table,
  table-driven number parsers, and clocks whose n-th reading ends in the two digits
  of n.
\<close>

definition two_digits :: "nat \<Rightarrow> string" where
  "two_digits n = [''0123456789'' ! (n div 10 mod 10), ''0123456789'' ! (n mod 10)]"

definition fixture_libs :: libs where
  "fixture_libs =
     \<lparr>is_profane = (\<lambda>s. Some (take 4 s = ''damn'')),
      polarity_compound =
        map_of [(''good fine'', 0.5), (''ok fine'', 0.1), (''meh fine'', -0.1), (''bad awful'', -0.8)],
      nlp_canonical = Some,
      py_float = map_of [(''1'', 1), (''3'', 3), (''5'', 5)],
      py_int = map_of [(''1'', 1), (''2'', 2), (''4'', 4)],
      py_decimal = map_of [(''1.0'', 1), (''3.0'', 3), (''5.0'', 5), (''0'', 0), (''2'', 2), (''3'', 3)],
      py_repr = (\<lambda>j. case j of JNum x \<Rightarrow> (if x = 1393632000 then ''1393632000'' else if x = 5 then ''5.0'' else if x = 2 then ''2'' else if x = 3 then ''3'' else ''0'') | _ \<Rightarrow> ''[]''),
      ddb_serialize = (\<lambda>j. case j of JStr s \<Rightarrow> Some (S s) | JNull \<Rightarrow> Some NULL
                                   | JBool b \<Rightarrow> Some (BOOL b) | _ \<Rightarrow> None),
      utcfromtimestamp_iso = (\<lambda>j. case j of JNum x \<Rightarrow> Some ''2014-03-01T00:00:00'' | _ \<Rightarrow> None),
      strptime_iso = (\<lambda>j. None),
      now_iso = (\<lambda>n. ''2024-05-01T10:00:'' @ two_digits n),
      utcnow_iso = (\<lambda>n. ''2024-05-01T08:00:'' @ two_digits n),
      utcnow_timestamp = (\<lambda>n. ''17145504'' @ two_digits n @ ''.0'')\<rparr>"

definition pipeline_world :: "(string \<rightharpoonup> item) \<Rightarrow> world" where
  "pipeline_world customers =
     \<lparr>ssm = [''/app/config/customers_table'' \<mapsto> ''customers'',
              ''/app/config/profanity_threshold'' \<mapsto> ''4'',
              ''/app/config/reviews_table'' \<mapsto> ''reviews'',
              ''/app/config/raw_bucket'' \<mapsto> ''raw'',
              ''/app/config/processed_bucket'' \<mapsto> ''processed''],
      s3 = [''raw'' \<mapsto> Map.empty, ''processed'' \<mapsto> Map.empty],
      tables = [''reviews'' \<mapsto> \<lparr>key_attr = ''reviewId'', rows = Map.empty\<rparr>,
                 ''customers'' \<mapsto> \<lparr>key_attr = ''userId'', rows = customers\<rparr>],
      ticks = 0\<rparr>"

definition fixture_world :: world where
  "fixture_world = pipeline_world Map.empty"

definition three_strikes_world :: world where
  "three_strikes_world =
     pipeline_world [''u1'' \<mapsto> [''userId'' \<mapsto> S ''u1'', ''totalReviews'' \<mapsto> N 3,
                                  ''violationCount'' \<mapsto> N 3, ''isBanned'' \<mapsto> BOOL False]]"

definition flagged_review :: "string \<Rightarrow> stream_record" where
  "flagged_review rid =
     \<lparr>eventName = ''INSERT'',
      NewImage = [''reviewId'' \<mapsto> AttrS rid, ''userId'' \<mapsto> AttrS ''u1'',
                  ''originalReviewText'' \<mapsto> AttrS ''damn thing'',
                  ''originalSummary'' \<mapsto> AttrS ''bad'']\<rparr>"

text \<open>
  A world with one preprocessed blob, and insert notifications that refer to a blob by
  its URI.
\<close>

definition blob_world :: world where
  "blob_world =
     fixture_world\<lparr>s3 := [''raw'' \<mapsto> Map.empty,
                           ''processed'' \<mapsto>
                              [''preprocessed/u1/r2.json'' \<mapsto>
                                 JsonDoc (JObj [(''preprocessedSummary'', JStr ''good''),
                                                (''preprocessedReviewText'', JStr ''fine'')])]]\<rparr>"

definition sentiment_review :: "string \<Rightarrow> string \<Rightarrow> stream_record" where
  "sentiment_review rid uri =
     \<lparr>eventName = ''INSERT'',
      NewImage = [''reviewId'' \<mapsto> AttrS rid, ''userId'' \<mapsto> AttrS ''u1'',
                  ''originalReviewText'' \<mapsto> AttrS ''good thing'',
                  ''originalSummary'' \<mapsto> AttrS ''fine'',
                  ''preprocessedLocation'' \<mapsto> AttrS uri,
                  ''overallRating'' \<mapsto> AttrN ''5'']\<rparr>"

text \<open>
  An upload notification for one object of the raw bucket, a world holding a payload
  there, and three payloads: one without \<^verbatim>\<open>overall\<close>, one complete but with neither
  \<^verbatim>\<open>reviewId\<close> nor \<^verbatim>\<open>unixReviewTime\<close>, one with \<^verbatim>\<open>unixReviewTime\<close>.
\<close>

definition upload :: s3_record where
  "upload = \<lparr>bucket_name = ''raw'', object_key = ''incoming/a.json''\<rparr>"

definition raw_world :: "json \<Rightarrow> world" where
  "raw_world payload =
     fixture_world\<lparr>s3 := [''raw'' \<mapsto> [''incoming/a.json'' \<mapsto> JsonDoc payload],
                           ''processed'' \<mapsto> Map.empty]\<rparr>"

definition incomplete_review :: "(string \<times> json) list" where
  "incomplete_review =
     [(''reviewerID'', JStr ''u1''), (''asin'', JStr ''B001''), (''reviewText'', JStr ''good'')]"

definition undated_review :: "(string \<times> json) list" where
  "undated_review = incomplete_review @ [(''overall'', JNum 5)]"

definition dated_review :: "(string \<times> json) list" where
  "dated_review = undated_review @ [(''unixReviewTime'', JNum 1393632000)]"

text \<open>A world whose Parameter Store is empty.\<close>

definition unconfigured_world :: world where
  "unconfigured_world = fixture_world\<lparr>ssm := Map.empty\<rparr>"

text \<open>
  The world of the customer with three violations, without the parameter
  \<^verbatim>\<open>profanity_threshold\<close>.
\<close>

definition thresholdless_world :: world where
  "thresholdless_world =
     three_strikes_world\<lparr>ssm := [''/app/config/customers_table'' \<mapsto> ''customers'',
                                  ''/app/config/reviews_table'' \<mapsto> ''reviews'']\<rparr>"

section \<open>Properties\<close>

subsection \<open>Sentiment classification\<close>

text \<open>
  Claim C4. For every summary, review text and rating, whenever the scorer yields a
  compound score for the combined text, \<open>analyze_sentiment\<close> returns the label the
  specification's policy gives for that score and rating: positive if the score is at
  least 0.5 or it is above 0 with a rating of 4 or more; otherwise negative if the score
  is at most -0.5 or it is below 0 with a rating of 2 or less; otherwise neutral. At
  the boundaries: a score of exactly 0.5 is positive whatever the rating, 0.1 with
  rating 5 is positive, and -0.1 with rating 3 is neutral.
\<close>

theorem analyze_sentiment_follows_policy:
  "polarity_compound L (combined_text summary review_text) = Some compound \<Longrightarrow>
     analyze_sentiment L summary review_text overall = Inr (spec_sentiment_policy compound overall)
     \<and> (compound = 0.5 \<longrightarrow> analyze_sentiment L summary review_text overall = Inr ''positive'')
     \<and> (compound = 0.1 \<and> overall = 5
          \<longrightarrow> analyze_sentiment L summary review_text overall = Inr ''positive'')
     \<and> (compound = -0.1 \<and> overall = 3
          \<longrightarrow> analyze_sentiment L summary review_text overall = Inr ''neutral'')"
  by (simp add: analyze_sentiment_def spec_sentiment_policy_def rating_sentiment_def
        spec_rating_implied_def)

lemma fixture_libs_fields:
  "is_profane fixture_libs s = Some (take 4 s = ''damn'')"
  "polarity_compound fixture_libs =
     map_of [(''good fine'', 0.5), (''ok fine'', 0.1), (''meh fine'', -0.1), (''bad awful'', -0.8)]"
  "nlp_canonical fixture_libs = Some"
  "py_float fixture_libs = map_of [(''1'', 1), (''3'', 3), (''5'', 5)]"
  "py_int fixture_libs = map_of [(''1'', 1), (''2'', 2), (''4'', 4)]"
  "now_iso fixture_libs n = ''2024-05-01T10:00:'' @ two_digits n"
  "utcnow_iso fixture_libs n = ''2024-05-01T08:00:'' @ two_digits n"
  "utcnow_timestamp fixture_libs n = ''17145504'' @ two_digits n @ ''.0''"
  by (simp_all add: fixture_libs_def)

lemma combined_text_fixture:
  "combined_text '' ok '' ''fine  '' = ''ok fine''"
  by (simp add: combined_text_def strip_def is_space_def)

theorem analyze_sentiment_follows_policy_witness:
  "polarity_compound fixture_libs (combined_text '' ok '' ''fine  '') = Some 0.1
     \<and> analyze_sentiment fixture_libs '' ok '' ''fine  '' 5 = Inr ''positive''
     \<and> spec_sentiment_policy 0.1 5 = ''positive''"
  using analyze_sentiment_follows_policy
          [of fixture_libs "'' ok ''" "''fine  ''" "0.1" 5]
  by (simp add: combined_text_fixture fixture_libs_fields spec_sentiment_policy_def
        spec_rating_implied_def)

subsection \<open>Storage primitives and the customer update\<close>

lemma set_attrs_other: "a \<notin> fst ` set sets \<Longrightarrow> set_attrs it sets a = it a"
  unfolding set_attrs_def
  by (induction sets arbitrary: it) (auto split: prod.splits)

lemma set_attrs_append: "set_attrs it (xs @ ys) = set_attrs (set_attrs it xs) ys"
  by (simp add: set_attrs_def)

lemma set_attrs_Cons: "set_attrs it ((a, v) # xs) = set_attrs (it(a \<mapsto> v)) xs"
  by (simp add: set_attrs_def)

lemma set_attrs_Nil: "set_attrs it [] = it"
  by (simp add: set_attrs_def)

lemma ddb_update_item_InrD:
  assumes "ddb_update_item w tn ka k sets = Inr (new, w')"
  shows "\<exists>t. tables w tn = Some t \<and> key_attr t = ka \<and> ka \<notin> fst ` set sets
           \<and> new = set_attrs (case rows t k of None \<Rightarrow> [ka \<mapsto> S k] | Some it \<Rightarrow> it) sets
           \<and> w' = w\<lparr>tables := (tables w)(tn \<mapsto> t\<lparr>rows := (rows t)(k \<mapsto> new)\<rparr>)\<rparr>"
  using assms
  by (auto simp: ddb_update_item_def Let_def split: option.splits if_splits)

lemma ddb_update_item_row:
  assumes "ddb_update_item w tn ka k sets = Inr (new, w')"
  shows "row_of w' t u = (if t = tn \<and> u = k then Some new else row_of w t u)"
    and "ssm w' = ssm w" and "s3 w' = s3 w" and "ticks w' = ticks w"
    and "map_option key_attr (tables w' t) = map_option key_attr (tables w t)"
  using ddb_update_item_InrD[OF assms]
  by (auto simp: row_of_def)

lemma ddb_put_item_InrD:
  assumes "ddb_put_item w tn it = Inr w'"
  shows "\<exists>t k. tables w tn = Some t \<and> it (key_attr t) = Some (S k)
           \<and> w' = w\<lparr>tables := (tables w)(tn \<mapsto> t\<lparr>rows := (rows t)(k \<mapsto> it)\<rparr>)\<rparr>"
  using assms
  by (auto simp: ddb_put_item_def split: option.splits val.splits)

lemma ddb_get_item_InrD:
  assumes "ddb_get_item w tn ka k = Inr r"
  shows "\<exists>t. tables w tn = Some t \<and> key_attr t = ka \<and> r = rows t k"
  using assms
  by (auto simp: ddb_get_item_def split: option.splits if_splits)

lemma set_attrs_opt_apply:
  "set_attrs it (if c then [(k, v)] else []) a = (if c \<and> k = a then Some v else it a)"
  by (simp add: set_attrs_def)

lemma set_attrs_Cons_apply:
  "set_attrs it ((k, v) # xs) a = set_attrs (it(k \<mapsto> v)) xs a"
  by (simp add: set_attrs_def)

lemmas set_attrs_eval = set_attrs_append set_attrs_Cons set_attrs_Nil set_attrs_opt_apply

lemma customer_update_sets_InrD:
  assumes "customer_update_sets it hp now = Inr sets"
  shows "\<exists>x. py_num (item_get it ''totalReviews'' (N 0)) = Some x
           \<and> (if hp
               then (\<exists>y. py_num (item_get it ''violationCount'' (N 0)) = Some y
                      \<and> sets = base_sets it now x
                           @ [(''violationCount'', N (y + 1)), (''lastViolationDate'', S now)]
                           @ (if it ''firstViolationDate'' = None
                              then [(''firstViolationDate'', S now)] else []))
               else sets = base_sets it now x
                           @ (if it ''violationCount'' = None then [(''violationCount'', N 0)] else []))"
proof -
  obtain x where x: "py_num (item_get it ''totalReviews'' (N 0)) = Some x"
    using assms by (cases "py_num (item_get it ''totalReviews'' (N 0))")
      (simp_all add: customer_update_sets_def plus_one_def Let_def)
  show ?thesis
  proof (cases hp)
    case True
    then obtain y where y: "py_num (item_get it ''violationCount'' (N 0)) = Some y"
      using assms x by (cases "py_num (item_get it ''violationCount'' (N 0))")
        (simp_all add: customer_update_sets_def plus_one_def Let_def)
    show ?thesis
      using assms x y True
      by (simp add: customer_update_sets_def plus_one_def Let_def base_sets_def
            split del: if_split cong: if_cong)
  next
    case False
    show ?thesis
      using assms x False
      by (simp add: customer_update_sets_def plus_one_def Let_def base_sets_def
            split del: if_split cong: if_cong)
  qed
qed

lemma base_sets_attrs:
  "set_attrs it (base_sets it now x) ''totalReviews'' = Some (N (x + 1))"
  "set_attrs it (base_sets it now x) ''violationCount'' = it ''violationCount''"
  "set_attrs it (base_sets it now x) ''isBanned'' = Some (item_get it ''isBanned'' (BOOL False))"
  "set_attrs it (base_sets it now x) ''banDate'' = it ''banDate''"
  by (simp_all add: base_sets_def set_attrs_eval item_get_def split: option.splits)

lemma base_sets_key: "(''userId'', b) \<notin> set (base_sets it now x)"
  by (auto simp: base_sets_def)

lemma customer_update_sets_attrs:
  assumes "customer_update_sets it hp now = Inr sets"
  shows "\<exists>x. py_num (item_get it ''totalReviews'' (N 0)) = Some x
              \<and> set_attrs it sets ''totalReviews'' = Some (N (x + 1))"
    and "hp \<Longrightarrow> \<exists>x. py_num (item_get it ''violationCount'' (N 0)) = Some x
              \<and> set_attrs it sets ''violationCount'' = Some (N (x + 1))"
    and "\<not> hp \<Longrightarrow> set_attrs it sets ''violationCount'' = Some (item_get it ''violationCount'' (N 0))"
    and "set_attrs it sets ''isBanned'' = Some (item_get it ''isBanned'' (BOOL False))"
    and "set_attrs it sets ''banDate'' = it ''banDate''"
    and "''userId'' \<notin> fst ` set sets"
  using customer_update_sets_InrD[OF assms]
  by (auto simp: set_attrs_eval base_sets_attrs base_sets_key item_get_def
           split: if_splits option.splits)

lemma new_customer_item_attrs:
  "new_customer_item u hp now ''totalReviews'' = Some (N 1)"
  "new_customer_item u hp now ''violationCount'' = Some (N (if hp then 1 else 0))"
  "new_customer_item u hp now ''isBanned'' = Some (BOOL False)"
  "new_customer_item u hp now ''banDate'' = None"
  "new_customer_item u hp now ''userId'' = Some (S u)"
  by (simp_all add: new_customer_item_def Let_def)

lemma update_customer_InrD:
  assumes "update_customer w ct u hp now = Inr (uc, w')"
  shows "\<exists>t. tables w ct = Some t \<and> key_attr t = ''userId''
           \<and> w' = w\<lparr>tables := (tables w)(ct \<mapsto> t\<lparr>rows := (rows t)(u \<mapsto> uc)\<rparr>)\<rparr>
           \<and> (case rows t u of
                 None \<Rightarrow> uc = new_customer_item u hp now
               | Some it \<Rightarrow> (\<exists>sets. customer_update_sets it hp now = Inr sets
                                \<and> uc = set_attrs it sets))"
proof -
  obtain t where t: "tables w ct = Some t" "key_attr t = ''userId''"
    and g: "ddb_get_item w ct ''userId'' u = Inr (rows t u)"
    using assms
    by (cases "ddb_get_item w ct ''userId'' u")
       (auto simp: update_customer_def dest: ddb_get_item_InrD)
  show ?thesis
  proof (cases "rows t u")
    case None
    then show ?thesis
      using assms t g
      by (auto simp: update_customer_def Let_def new_customer_item_attrs
               split: sum.splits dest!: ddb_put_item_InrD)
  next
    case (Some it)
    then show ?thesis
      using assms t g
      by (auto simp: update_customer_def split: sum.splits dest!: ddb_update_item_InrD)
  qed
qed

lemma apply_ban_InrD:
  assumes "apply_ban L w ct u uc now = Inr (b, w')"
  shows "\<exists>vc. py_num (item_get uc ''violationCount'' (N 0)) = Some vc
           \<and> (if b
               then vc > 0 \<and> \<not> truthy (item_get uc ''isBanned'' (BOOL False))
                    \<and> (\<exists>v th. ssm w ''/app/config/profanity_threshold'' = Some v
                          \<and> py_int L v = Some th \<and> of_int th \<le> vc)
                    \<and> (\<exists>new. ddb_update_item w ct ''userId'' u (ban_sets now) = Inr (new, w'))
               else w' = w
                    \<and> (vc > 0 \<and> \<not> truthy (item_get uc ''isBanned'' (BOOL False))
                         \<longrightarrow> (\<exists>v th. ssm w ''/app/config/profanity_threshold'' = Some v
                                \<and> py_int L v = Some th \<and> \<not> of_int th \<le> vc)))"
  using assms
  by (auto simp: apply_ban_def ssm_get_parameter_def ban_sets_def
           split: option.splits if_splits sum.splits)

lemma profanity_try_CompletedD:
  assumes "profanity_try L w img rid uid = (Completed hp b, w')"
  shows "\<exists>new2 w2 ct uc w4.
           ddb_update_item (w\<lparr>ticks := Suc (ticks w)\<rparr>) ''reviews'' ''reviewId'' rid
             [(''profanityCheckStatus'', S ''completed''), (''hasProfanity'', BOOL hp),
              (''lastUpdated'', S (now_iso L (ticks w)))] = Inr (new2, w2)
         \<and> ssm w2 ''/app/config/customers_table'' = Some ct
         \<and> update_customer (w2\<lparr>ticks := Suc (ticks w2)\<rparr>) ct uid hp (now_iso L (ticks w2)) = Inr (uc, w4)
         \<and> apply_ban L w4 ct uid uc (now_iso L (ticks w2)) = Inr (b, w')"
  using assms
  by (auto simp: profanity_try_def Let_def ssm_get_parameter_def
           split: sum.splits prod.splits option.splits)

lemma profanity_record_CompletedD:
  assumes "profanity_record L w r = (Completed hp b, w')"
  shows "\<exists>rid uid. eventName r = ''INSERT''
           \<and> image_S (NewImage r) ''reviewId'' = Inr rid
           \<and> image_S (NewImage r) ''userId'' = Inr uid
           \<and> profanity_try L w (NewImage r) rid uid = (Completed hp b, w')"
  using assms
  by (auto simp: profanity_record_def split: if_splits sum.splits)

lemma completed_effect:
  assumes A: "profanity_record L w r = (Completed hp b, w')"
    and U: "image_S (NewImage r) ''userId'' = Inr u"
    and C: "ssm w ''/app/config/customers_table'' = Some ct"
  shows "\<exists>uc vc.
           (case row_of w ct u of
              None \<Rightarrow> uc = new_customer_item u hp (now_iso L (Suc (ticks w)))
            | Some it \<Rightarrow> (\<exists>sets. customer_update_sets it hp (now_iso L (Suc (ticks w))) = Inr sets
                             \<and> uc = set_attrs it sets))
         \<and> row_of w' ct u
             = Some (if b then set_attrs uc (ban_sets (now_iso L (Suc (ticks w)))) else uc)
         \<and> py_num (item_get uc ''violationCount'' (N 0)) = Some vc
         \<and> (b \<longrightarrow> vc > 0 \<and> \<not> truthy (item_get uc ''isBanned'' (BOOL False))
                 \<and> (\<exists>v th. ssm w ''/app/config/profanity_threshold'' = Some v
                        \<and> py_int L v = Some th \<and> of_int th \<le> vc))
         \<and> (\<not> b \<and> vc > 0 \<and> \<not> truthy (item_get uc ''isBanned'' (BOOL False))
                 \<longrightarrow> (\<exists>v th. ssm w ''/app/config/profanity_threshold'' = Some v
                        \<and> py_int L v = Some th \<and> \<not> of_int th \<le> vc))
         \<and> ssm w' = ssm w \<and> s3 w' = s3 w \<and> ticks w' = Suc (Suc (ticks w))"
proof -
  from profanity_record_CompletedD[OF A] U obtain rid where
    T: "profanity_try L w (NewImage r) rid u = (Completed hp b, w')"
    by auto
  from profanity_try_CompletedD[OF T] obtain new2 w2 ct' uc w4 where
    R: "ddb_update_item (w\<lparr>ticks := Suc (ticks w)\<rparr>) ''reviews'' ''reviewId'' rid
             [(''profanityCheckStatus'', S ''completed''), (''hasProfanity'', BOOL hp),
              (''lastUpdated'', S (now_iso L (ticks w)))] = Inr (new2, w2)"
    and C': "ssm w2 ''/app/config/customers_table'' = Some ct'"
    and UC: "update_customer (w2\<lparr>ticks := Suc (ticks w2)\<rparr>) ct' u hp (now_iso L (ticks w2)) = Inr (uc, w4)"
    and B: "apply_ban L w4 ct' u uc (now_iso L (ticks w2)) = Inr (b, w')"
    by blast
  from ddb_update_item_InrD[OF R] obtain t0 where
    t0: "tables w ''reviews'' = Some t0" "key_attr t0 = ''reviewId''"
    and w2: "w2 = w\<lparr>ticks := Suc (ticks w),
                    tables := (tables w)(''reviews'' \<mapsto> t0\<lparr>rows := (rows t0)(rid \<mapsto> new2)\<rparr>)\<rparr>"
    by auto
  have ct: "ct' = ct" using C C' w2 by simp
  have tk: "ticks w2 = Suc (ticks w)" using w2 by simp
  from update_customer_InrD[OF UC] obtain t where
    t: "tables (w2\<lparr>ticks := Suc (ticks w2)\<rparr>) ct = Some t" "key_attr t = ''userId''"
    and w4: "w4 = w2\<lparr>ticks := Suc (ticks w2)\<rparr>\<lparr>tables := (tables (w2\<lparr>ticks := Suc (ticks w2)\<rparr>))(ct \<mapsto> t\<lparr>rows := (rows t)(u \<mapsto> uc)\<rparr>)\<rparr>"
    and cs: "(case rows t u of
                 None \<Rightarrow> uc = new_customer_item u hp (now_iso L (ticks w2))
               | Some it \<Rightarrow> (\<exists>sets. customer_update_sets it hp (now_iso L (ticks w2)) = Inr sets
                                \<and> uc = set_attrs it sets))"
    unfolding ct by blast
  have ne: "ct \<noteq> ''reviews''"
    using t t0 w2 by auto
  have tw: "tables w ct = Some t"
    using t w2 ne by simp
  have old: "row_of w ct u = rows t u"
    using tw by (simp add: row_of_def)
  have r4: "row_of w4 ct u = Some uc"
    using w4 by (simp add: row_of_def)
  have k4: "ssm w4 = ssm w" "s3 w4 = s3 w" "ticks w4 = Suc (Suc (ticks w))"
    using w4 w2 by simp_all
  from apply_ban_InrD[OF B] obtain vc where
    vc: "py_num (item_get uc ''violationCount'' (N 0)) = Some vc"
    and bb: "(if b
               then vc > 0 \<and> \<not> truthy (item_get uc ''isBanned'' (BOOL False))
                    \<and> (\<exists>v th. ssm w4 ''/app/config/profanity_threshold'' = Some v
                          \<and> py_int L v = Some th \<and> of_int th \<le> vc)
                    \<and> (\<exists>new. ddb_update_item w4 ct ''userId'' u (ban_sets (now_iso L (ticks w2))) = Inr (new, w'))
               else w' = w4
                    \<and> (vc > 0 \<and> \<not> truthy (item_get uc ''isBanned'' (BOOL False))
                         \<longrightarrow> (\<exists>v th. ssm w4 ''/app/config/profanity_threshold'' = Some v
                                \<and> py_int L v = Some th \<and> \<not> of_int th \<le> vc)))"
    unfolding ct by blast
  note bb' = bb
  show ?thesis
  proof (cases b)
    case True
    with bb' obtain new where bu: "ddb_update_item w4 ct ''userId'' u (ban_sets (now_iso L (ticks w2))) = Inr (new, w')"
      by auto
    from ddb_update_item_InrD[OF bu] r4
    have "row_of w' ct u = Some (set_attrs uc (ban_sets (now_iso L (ticks w2))))"
      and "ssm w' = ssm w4" "s3 w' = s3 w4" "ticks w' = ticks w4"
      by (auto simp: row_of_def)
    with True bb' vc cs old k4 tk show ?thesis
      by (intro exI[of _ uc] exI[of _ vc]) (simp split: option.splits)
  next
    case False
    with bb' have "w' = w4" by simp
    with False bb' vc cs old k4 tk r4 show ?thesis
      by (intro exI[of _ uc] exI[of _ vc]) (simp split: option.splits)
  qed
qed

lemma ban_sets_attrs:
  "set_attrs uc (ban_sets now) ''totalReviews'' = uc ''totalReviews''"
  "set_attrs uc (ban_sets now) ''violationCount'' = uc ''violationCount''"
  "set_attrs uc (ban_sets now) ''isBanned'' = Some (BOOL True)"
  "set_attrs uc (ban_sets now) ''banDate'' = Some (S now)"
  by (simp_all add: ban_sets_def set_attrs_def)

lemma updated_customer_attrs:
  assumes "case old of
              None \<Rightarrow> uc = new_customer_item u hp now
            | Some it \<Rightarrow> (\<exists>sets. customer_update_sets it hp now = Inr sets \<and> uc = set_attrs it sets)"
  shows "(\<exists>x. (case old of None \<Rightarrow> Some 0 | Some it \<Rightarrow> py_num (item_get it ''totalReviews'' (N 0))) = Some x
             \<and> uc ''totalReviews'' = Some (N (x + 1)))
    \<and> (hp \<longrightarrow> (\<exists>y. (case old of None \<Rightarrow> Some 0 | Some it \<Rightarrow> py_num (item_get it ''violationCount'' (N 0))) = Some y
             \<and> uc ''violationCount'' = Some (N (y + 1))))
    \<and> (\<not> hp \<longrightarrow> uc ''violationCount''
             = Some (case old of None \<Rightarrow> N 0 | Some it \<Rightarrow> item_get it ''violationCount'' (N 0)))
    \<and> uc ''isBanned'' = Some (case old of None \<Rightarrow> BOOL False | Some it \<Rightarrow> item_get it ''isBanned'' (BOOL False))
    \<and> uc ''banDate'' = (case old of None \<Rightarrow> None | Some it \<Rightarrow> it ''banDate'')"
proof (cases old)
  case None
  then show ?thesis
    using assms by (simp add: new_customer_item_attrs)
next
  case (Some it)
  with assms obtain sets where s: "customer_update_sets it hp now = Inr sets" "uc = set_attrs it sets"
    by auto
  show ?thesis
    using customer_update_sets_attrs[OF s(1)] Some s(2) by simp
qed

lemma completed_counters:
  assumes A: "profanity_record L w r = (Completed hp b, w')"
    and U: "image_S (NewImage r) ''userId'' = Inr u"
    and C: "ssm w ''/app/config/customers_table'' = Some ct"
  shows "\<exists>x y. counter w ct u ''totalReviews'' = Some x
           \<and> customer_attr w' ct u ''totalReviews'' = Some (N (x + 1))
           \<and> counter w' ct u ''totalReviews'' = Some (x + 1)
           \<and> (hp \<longrightarrow> counter w ct u ''violationCount'' = Some y
                    \<and> customer_attr w' ct u ''violationCount'' = Some (N (y + 1))
                    \<and> counter w' ct u ''violationCount'' = Some (y + 1))
           \<and> ssm w' = ssm w"
proof -
  from completed_effect[OF A U C] obtain uc where
    cs: "case row_of w ct u of
              None \<Rightarrow> uc = new_customer_item u hp (now_iso L (Suc (ticks w)))
            | Some it \<Rightarrow> (\<exists>sets. customer_update_sets it hp (now_iso L (Suc (ticks w))) = Inr sets
                             \<and> uc = set_attrs it sets)"
    and r': "row_of w' ct u
             = Some (if b then set_attrs uc (ban_sets (now_iso L (Suc (ticks w)))) else uc)"
    and k: "ssm w' = ssm w"
    by blast
  from updated_customer_attrs[OF cs] r' k show ?thesis
    by (cases "row_of w ct u")
       (auto simp: counter_def customer_attr_def ban_sets_attrs item_get_def py_num_def)
qed

lemma s3_get_object_s3: "s3 w' = s3 w \<Longrightarrow> s3_get_object w' = s3_get_object w"
  by (intro ext) (simp add: s3_get_object_def)

lemma fetch_texts_s3:
  assumes "s3 w' = s3 w"
  shows "fetch_texts w' img = fetch_texts w img"
  unfolding fetch_texts_def s3_get_object_s3[OF assms] ..

lemma profanity_record_flag:
  assumes "profanity_record L w r = (Completed hp b, w')"
  shows "\<exists>rt st. fetch_texts w (NewImage r) = Inr (rt, st) \<and> has_profanity L rt st = Inr hp"
  using assms
  by (auto simp: profanity_record_def profanity_try_def Let_def
           split: if_splits sum.splits prod.splits)

lemma redelivery_same_flag:
  assumes "profanity_record L w r = (Completed hp b, w')"
    and "profanity_record L w1 r = (Completed hp2 b2, w2)"
    and "s3 w1 = s3 w"
  shows "hp2 = hp"
  using profanity_record_flag[OF assms(1)] profanity_record_flag[OF assms(2)]
        fetch_texts_s3[OF assms(3)]
  by auto

subsection \<open>Evaluation on the fixtures\<close>

lemmas eval_defs =
  profanity_record_def profanity_try_def fetch_texts_def image_S_def has_profanity_def
  check_profane_def ddb_update_item_def ddb_get_item_def ddb_put_item_def
  ssm_get_parameter_def update_customer_def new_customer_item_def customer_update_sets_def
  apply_ban_def item_get_def py_num_def plus_one_def truthy_def set_attrs_def
  fixture_libs_fields pipeline_world_def fixture_world_def three_strikes_world_def
  flagged_review_def Let_def

lemma first_delivery:
  "fst (profanity_record fixture_libs fixture_world (flagged_review ''r1'')) = Completed True False"
  by (simp add: eval_defs)

lemma second_delivery:
  "fst (profanity_record fixture_libs
          (snd (profanity_record fixture_libs fixture_world (flagged_review ''r1'')))
          (flagged_review ''r1'')) = Completed True False"
  by (simp add: eval_defs)

lemma fixture_user: "image_S (NewImage (flagged_review rid)) ''userId'' = Inr ''u1''"
  by (simp add: flagged_review_def image_S_def)

lemma fixture_params:
  "ssm (pipeline_world c) ''/app/config/customers_table'' = Some ''customers''"
  "ssm (pipeline_world c) ''/app/config/profanity_threshold'' = Some ''4''"
  "row_of (pipeline_world c) ''customers'' k = c k"
  by (simp_all add: pipeline_world_def row_of_def)

lemma fourth_strike:
  "fst (profanity_record fixture_libs three_strikes_world (flagged_review ''r4'')) = Completed True True"
  by (simp add: eval_defs)

subsection \<open>Violation counting under redelivery\<close>

text \<open>
  Claim C1, as the code has it. The claim says that a second delivery of the same
  insert notification leaves \<open>violationCount\<close> unchanged. The handler keeps no record
  of the reviews it has counted: on the fixture, two deliveries of one flagged review
  to a new customer both complete, and the count is 1 after the first and 2 after the
  second.
\<close>

theorem redelivery_counts_twice:
  "fst (profanity_record fixture_libs fixture_world (flagged_review ''r1'')) = Completed True False
   \<and> customer_attr (snd (profanity_record fixture_libs fixture_world (flagged_review ''r1'')))
        ''customers'' ''u1'' ''violationCount'' = Some (N 1)
   \<and> fst (profanity_record fixture_libs
            (snd (profanity_record fixture_libs fixture_world (flagged_review ''r1'')))
            (flagged_review ''r1'')) = Completed True False
   \<and> customer_attr
        (snd (profanity_record fixture_libs
               (snd (profanity_record fixture_libs fixture_world (flagged_review ''r1'')))
               (flagged_review ''r1'')))
        ''customers'' ''u1'' ''violationCount'' = Some (N 2)"
  by (simp add: eval_defs customer_attr_def row_of_def)

text \<open>
  Claim C1, amended. Every completed delivery of a profanity-flagged insert
  notification raises the user's \<open>violationCount\<close> by exactly one (from 0 for a
  customer not yet seen), whether or not the same review was delivered before: a
  second completed delivery of the same notification is flagged again and leaves the
  count two above the initial one.
\<close>

theorem violation_count_per_delivery:
  assumes "profanity_record L w r = (Completed True b, w')"
    and "image_S (NewImage r) ''userId'' = Inr u"
    and "ssm w ''/app/config/customers_table'' = Some ct"
  shows "\<exists>y. counter w ct u ''violationCount'' = Some y
           \<and> customer_attr w' ct u ''violationCount'' = Some (N (y + 1))
           \<and> (\<forall>hp2 b2 w''. profanity_record L w' r = (Completed hp2 b2, w'')
                 \<longrightarrow> hp2 \<and> customer_attr w'' ct u ''violationCount'' = Some (N (y + 2)))"
proof -
  from completed_counters[OF assms] obtain y where
    y: "counter w ct u ''violationCount'' = Some y"
       "customer_attr w' ct u ''violationCount'' = Some (N (y + 1))"
       "counter w' ct u ''violationCount'' = Some (y + 1)"
       "ssm w' = ssm w"
    by blast
  from completed_effect[OF assms] have s3: "s3 w' = s3 w"
    by blast
  have again: "hp2 \<and> customer_attr w'' ct u ''violationCount'' = Some (N (y + 2))"
    if R: "profanity_record L w' r = (Completed hp2 b2, w'')" for hp2 b2 w''
  proof -
    have hp2: "hp2" using redelivery_same_flag[OF assms(1) R s3] by simp
    have "ssm w' ''/app/config/customers_table'' = Some ct"
      using assms(3) y(4) by simp
    from completed_counters[OF R assms(2) this] y(3) hp2 show ?thesis
      by auto
  qed
  show ?thesis
    using y again by (intro exI[of _ y]) auto
qed

theorem violation_count_per_delivery_witness:
  "profanity_record fixture_libs fixture_world (flagged_review ''r1'')
     = (Completed True False, snd (profanity_record fixture_libs fixture_world (flagged_review ''r1'')))
   \<and> counter fixture_world ''customers'' ''u1'' ''violationCount'' = Some 0
   \<and> customer_attr (snd (profanity_record fixture_libs fixture_world (flagged_review ''r1'')))
        ''customers'' ''u1'' ''violationCount'' = Some (N (0 + 1))"
proof -
  have run: "profanity_record fixture_libs fixture_world (flagged_review ''r1'')
     = (Completed True False, snd (profanity_record fixture_libs fixture_world (flagged_review ''r1'')))"
    using first_delivery by (simp add: prod_eq_iff)
  have c0: "counter fixture_world ''customers'' ''u1'' ''violationCount'' = Some 0"
    by (simp add: counter_def fixture_world_def fixture_params)
  from violation_count_per_delivery[OF run fixture_user]
  show ?thesis using run c0 by (auto simp: fixture_world_def fixture_params)
qed

subsection \<open>Total reviews count deliveries\<close>



subsection \<open>The ban decision\<close>

text \<open>
  Claim C3. For a completed, flagged delivery with the threshold configured (at least
  1, or the stored count not negative), the row holds the incremented count, and the
  customer is banned by this delivery exactly when the incremented count reaches the
  threshold and the stored ban flag is not set; then \<open>isBanned\<close> is true and
  \<open>banDate\<close> is the handler's \<open>current_time\<close> (its second clock reading); otherwise
  flag and date are as before.
\<close>

theorem ban_decision_uses_fresh_count:
  assumes A: "profanity_record L w r = (Completed True b, w')"
    and U: "image_S (NewImage r) ''userId'' = Inr u"
    and C: "ssm w ''/app/config/customers_table'' = Some ct"
    and T: "ssm w ''/app/config/profanity_threshold'' = Some v" "py_int L v = Some th"
    and X: "counter w ct u ''violationCount'' = Some x"
    and P: "1 \<le> th \<or> 0 \<le> x"
  shows "customer_attr w' ct u ''violationCount'' = Some (N (x + 1))
       \<and> (b \<longleftrightarrow> of_int th \<le> x + 1 \<and> \<not> truthy (stored_is_banned w ct u))
       \<and> (b \<longrightarrow> customer_attr w' ct u ''isBanned'' = Some (BOOL True)
               \<and> customer_attr w' ct u ''banDate'' = Some (S (now_iso L (Suc (ticks w)))))
       \<and> (\<not> b \<longrightarrow> customer_attr w' ct u ''isBanned'' = Some (stored_is_banned w ct u)
               \<and> customer_attr w' ct u ''banDate'' = customer_attr w ct u ''banDate'')"
proof -
  from completed_effect[OF A U C] obtain uc vc where
    cs: "case row_of w ct u of
              None \<Rightarrow> uc = new_customer_item u True (now_iso L (Suc (ticks w)))
            | Some it \<Rightarrow> (\<exists>sets. customer_update_sets it True (now_iso L (Suc (ticks w))) = Inr sets
                             \<and> uc = set_attrs it sets)"
    and r': "row_of w' ct u
             = Some (if b then set_attrs uc (ban_sets (now_iso L (Suc (ticks w)))) else uc)"
    and vc: "py_num (item_get uc ''violationCount'' (N 0)) = Some vc"
    and yes: "b \<longrightarrow> vc > 0 \<and> \<not> truthy (item_get uc ''isBanned'' (BOOL False))
                 \<and> (\<exists>v th. ssm w ''/app/config/profanity_threshold'' = Some v
                        \<and> py_int L v = Some th \<and> of_int th \<le> vc)"
    and no: "\<not> b \<and> vc > 0 \<and> \<not> truthy (item_get uc ''isBanned'' (BOOL False))
                 \<longrightarrow> (\<exists>v th. ssm w ''/app/config/profanity_threshold'' = Some v
                        \<and> py_int L v = Some th \<and> \<not> of_int th \<le> vc)"
    by blast
  from updated_customer_attrs[OF cs] X have
    ucv: "uc ''violationCount'' = Some (N (x + 1))"
    and ucb: "uc ''isBanned'' = Some (stored_is_banned w ct u)"
    and ucd: "uc ''banDate'' = customer_attr w ct u ''banDate''"
    by (auto simp: counter_def stored_is_banned_def customer_attr_def split: option.splits)
  have vcx: "vc = x + 1"
    using vc ucv by (simp add: item_get_def py_num_def)
  have flag: "item_get uc ''isBanned'' (BOOL False) = stored_is_banned w ct u"
    using ucb by (simp add: item_get_def)
  have pos: "of_int th \<le> x + 1 \<Longrightarrow> 0 < x + 1"
  proof -
    assume le: "of_int th \<le> x + 1"
    from P show "0 < x + 1"
    proof
      assume "1 \<le> th"
      then have "(1::real) \<le> of_int th" by simp
      with le show ?thesis by linarith
    next
      assume "0 \<le> x" then show ?thesis by linarith
    qed
  qed
  have dec: "b \<longleftrightarrow> of_int th \<le> x + 1 \<and> \<not> truthy (stored_is_banned w ct u)"
    using yes no T vcx flag pos by auto
  show ?thesis
    using dec r' ucv ucb ucd
    by (auto simp: customer_attr_def ban_sets_attrs)
qed

theorem ban_decision_uses_fresh_count_witness:
  "profanity_record fixture_libs three_strikes_world (flagged_review ''r4'')
     = (Completed True True, snd (profanity_record fixture_libs three_strikes_world (flagged_review ''r4'')))
   \<and> counter three_strikes_world ''customers'' ''u1'' ''violationCount'' = Some 3
   \<and> customer_attr (snd (profanity_record fixture_libs three_strikes_world (flagged_review ''r4'')))
        ''customers'' ''u1'' ''violationCount'' = Some (N (3 + 1))
   \<and> customer_attr (snd (profanity_record fixture_libs three_strikes_world (flagged_review ''r4'')))
        ''customers'' ''u1'' ''isBanned'' = Some (BOOL True)
   \<and> customer_attr (snd (profanity_record fixture_libs three_strikes_world (flagged_review ''r4'')))
        ''customers'' ''u1'' ''banDate'' = Some (S (now_iso fixture_libs (Suc (ticks three_strikes_world))))"
proof -
  have run: "profanity_record fixture_libs three_strikes_world (flagged_review ''r4'')
     = (Completed True True, snd (profanity_record fixture_libs three_strikes_world (flagged_review ''r4'')))"
    using fourth_strike by (simp add: prod_eq_iff)
  have c3: "counter three_strikes_world ''customers'' ''u1'' ''violationCount'' = Some 3"
    by (simp add: counter_def three_strikes_world_def fixture_params item_get_def py_num_def)
  have th: "py_int fixture_libs ''4'' = Some 4"
    by (simp add: fixture_libs_fields)
  have p: "ssm three_strikes_world ''/app/config/customers_table'' = Some ''customers''"
       "ssm three_strikes_world ''/app/config/profanity_threshold'' = Some ''4''"
    by (simp_all add: three_strikes_world_def fixture_params)
  from ban_decision_uses_fresh_count[OF run fixture_user p th c3]
  show ?thesis using run c3 by simp
qed

subsection \<open>Banned is terminal\<close>

lemma banned_at_ticks [simp]: "banned_at (w\<lparr>ticks := n\<rparr>) t k d = banned_at w t k d"
  by (simp add: banned_at_def row_of_def)

lemma update_preserves_ban:
  assumes "ddb_update_item w tn ka key sets = Inr (new, w')"
    and "''isBanned'' \<notin> fst ` set sets" and "''banDate'' \<notin> fst ` set sets"
    and "banned_at w t k d"
  shows "banned_at w' t k d"
proof -
  from ddb_update_item_InrD[OF assms(1)] obtain tb where
    tb: "tables w tn = Some tb"
    and new: "new = set_attrs (case rows tb key of None \<Rightarrow> [ka \<mapsto> S key] | Some it \<Rightarrow> it) sets"
    and w': "w' = w\<lparr>tables := (tables w)(tn \<mapsto> tb\<lparr>rows := (rows tb)(key \<mapsto> new)\<rparr>)\<rparr>"
    by blast
  show ?thesis
  proof (cases "t = tn \<and> k = key")
    case True
    with assms(4) tb obtain it where it: "rows tb key = Some it"
      "it ''isBanned'' = Some (BOOL True)" "it ''banDate'' = d"
      by (auto simp: banned_at_def row_of_def split: option.splits)
    have "new ''isBanned'' = Some (BOOL True)" "new ''banDate'' = d"
      using new it assms(2,3) by (simp_all add: set_attrs_other)
    with True w' show ?thesis
      by (simp add: banned_at_def row_of_def)
  next
    case False
    with assms(4) w' tb show ?thesis
      by (auto simp: banned_at_def row_of_def split: option.splits)
  qed
qed

lemma update_customer_preserves_ban:
  assumes "update_customer w ct u hp now = Inr (uc, w')"
    and "banned_at w t k d"
  shows "banned_at w' t k d"
proof -
  from update_customer_InrD[OF assms(1)] obtain tb where
    tb: "tables w ct = Some tb" "key_attr tb = ''userId''"
    and w': "w' = w\<lparr>tables := (tables w)(ct \<mapsto> tb\<lparr>rows := (rows tb)(u \<mapsto> uc)\<rparr>)\<rparr>"
    and cs: "case rows tb u of
                 None \<Rightarrow> uc = new_customer_item u hp now
               | Some it \<Rightarrow> (\<exists>sets. customer_update_sets it hp now = Inr sets
                                \<and> uc = set_attrs it sets)"
    by blast
  show ?thesis
  proof (cases "t = ct \<and> k = u")
    case True
    with assms(2) tb obtain it where it: "rows tb u = Some it"
      "it ''isBanned'' = Some (BOOL True)" "it ''banDate'' = d"
      by (auto simp: banned_at_def row_of_def split: option.splits)
    with cs obtain sets where s: "customer_update_sets it hp now = Inr sets" "uc = set_attrs it sets"
      by auto
    from customer_update_sets_attrs(4,5)[OF s(1)] s(2) it True w' show ?thesis
      by (simp add: banned_at_def row_of_def item_get_def)
  next
    case False
    with assms(2) w' tb show ?thesis
      by (auto simp: banned_at_def row_of_def split: option.splits)
  qed
qed

lemma update_customer_row:
  assumes "update_customer w ct u hp now = Inr (uc, w')"
  shows "row_of w' ct u = Some uc"
  using update_customer_InrD[OF assms] by (auto simp: row_of_def)

lemma apply_ban_preserves_ban:
  assumes "apply_ban L w ct u uc now = Inr (b, w')"
    and "row_of w ct u = Some uc"
    and "banned_at w t k d"
  shows "banned_at w' t k d"
proof (cases b)
  case False
  with apply_ban_InrD[OF assms(1)] assms(3) show ?thesis by auto
next
  case True
  with apply_ban_InrD[OF assms(1)] obtain new where
    nb: "\<not> truthy (item_get uc ''isBanned'' (BOOL False))"
    and up: "ddb_update_item w ct ''userId'' u (ban_sets now) = Inr (new, w')"
    by auto
  have "\<not> (t = ct \<and> k = u)"
    using nb assms(2,3) by (auto simp: banned_at_def item_get_def truthy_def)
  then have "row_of w' t k = row_of w t k"
    using ddb_update_item_row(1)[OF up, of t k] by (auto split: if_splits)
  with assms(3) show ?thesis
    by (simp add: banned_at_def)
qed

lemma review_update_preserves_ban:
  assumes "ddb_update_item w ''reviews'' ''reviewId'' rid
             [(''profanityCheckStatus'', S ''completed''), (''hasProfanity'', BOOL hp),
              (''lastUpdated'', S now)] = Inr (new, w')"
    and "banned_at w t k d"
  shows "banned_at w' t k d"
  by (rule update_preserves_ban[OF assms(1) _ _ assms(2)]) simp_all

lemma profanity_try_preserves_ban:
  assumes B: "banned_at w t k d"
  shows "banned_at (snd (profanity_try L w img rid uid)) t k d"
proof (cases "fetch_texts w img")
  case (Inl e)
  then show ?thesis using B by (simp add: profanity_try_def)
next
  case (Inr p)
  obtain rt st where p: "p = (rt, st)" by (cases p)
  show ?thesis
  proof (cases "has_profanity L rt st")
    case (Inl e)
    then show ?thesis using B Inr p by (simp add: profanity_try_def)
  next
    case hp: (Inr hp)
    let ?w1 = "w\<lparr>ticks := Suc (ticks w)\<rparr>"
    show ?thesis
    proof (cases "ddb_update_item ?w1 ''reviews'' ''reviewId'' rid
             [(''profanityCheckStatus'', S ''completed''), (''hasProfanity'', BOOL hp),
              (''lastUpdated'', S (now_iso L (ticks w)))]")
      case (Inl e)
      then show ?thesis using B Inr p hp by (simp add: profanity_try_def Let_def)
    next
      case up: (Inr q)
      obtain new2 w2 where q: "q = (new2, w2)" by (cases q)
      have B2: "banned_at w2 t k d"
        using review_update_preserves_ban[OF up[unfolded q]] B by simp
      show ?thesis
      proof (cases "ssm_get_parameter w2 ''/app/config/customers_table''")
        case (Inl e)
        then show ?thesis using B2 Inr p hp up q by (simp add: profanity_try_def Let_def)
      next
        case ct: (Inr ct)
        let ?w3 = "w2\<lparr>ticks := Suc (ticks w2)\<rparr>"
        have B3: "banned_at ?w3 t k d" using B2 by simp
        show ?thesis
        proof (cases "update_customer ?w3 ct uid hp (now_iso L (ticks w2))")
          case (Inl e)
          then show ?thesis using B3 Inr p hp up q ct by (simp add: profanity_try_def Let_def)
        next
          case uc: (Inr c)
          obtain ucust w4 where c: "c = (ucust, w4)" by (cases c)
          have B4: "banned_at w4 t k d"
            using update_customer_preserves_ban[OF uc[unfolded c] B3] .
          have R4: "row_of w4 ct uid = Some ucust"
            using update_customer_row[OF uc[unfolded c]] .
          show ?thesis
          proof (cases "apply_ban L w4 ct uid ucust (now_iso L (ticks w2))")
            case (Inl e)
            then show ?thesis using B4 Inr p hp up q ct uc c
              by (simp add: profanity_try_def Let_def)
          next
            case ab: (Inr z)
            obtain b w5 where z: "z = (b, w5)" by (cases z)
            have "banned_at w5 t k d"
              using apply_ban_preserves_ban[OF ab[unfolded z] R4 B4] .
            then show ?thesis using Inr p hp up q ct uc c ab z
              by (simp add: profanity_try_def Let_def)
          qed
        qed
      qed
    qed
  qed
qed

lemma profanity_record_preserves_ban:
  assumes "banned_at w t k d"
  shows "banned_at (snd (profanity_record L w r)) t k d"
  using assms profanity_try_preserves_ban[OF assms]
  by (simp add: profanity_record_def split: sum.splits)

lemma profanity_records_preserve_ban:
  "banned_at w t k d \<Longrightarrow> banned_at (snd (profanity_records L w rs)) t k d"
proof (induction rs arbitrary: w)
  case Nil
  then show ?case by simp
next
  case (Cons r rs)
  from profanity_record_preserves_ban[OF Cons.prems]
  have "banned_at (snd (profanity_record L w r)) t k d" .
  from this Cons.IH[OF this] show ?case
    by (cases "profanity_record L w r") (auto split: outcome.splits prod.splits)
qed

text \<open>
  Claim C2. Whatever batches the profanity handler is invoked with, one after the
  other, a row whose \<open>isBanned\<close> is true keeps \<open>isBanned\<close> true and keeps its
  \<open>banDate\<close>. On the fixture with threshold 4, the fourth flagged review bans the
  user, and a fifth leaves flag and date as they are.
\<close>

theorem ban_is_terminal:
  "banned_at w t k d \<Longrightarrow> banned_at (profanity_runs L w batches) t k d"
proof (induction batches arbitrary: w)
  case Nil
  then show ?case by (simp add: profanity_runs_def)
next
  case (Cons records batches)
  have "banned_at (snd (snd (profanity_lambda_handler L w records))) t k d"
    using profanity_records_preserve_ban[OF Cons.prems, of L records]
    by (cases "profanity_records L w records") (simp add: profanity_lambda_handler_def)
  from Cons.IH[OF this] show ?case
    by (simp add: profanity_runs_def)
qed

lemma banned_after_fourth:
  "banned_at (profanity_runs fixture_libs three_strikes_world [[flagged_review ''r4'']])
     ''customers'' ''u1'' (Some (S ''2024-05-01T10:00:01''))"
  by (simp add: eval_defs profanity_runs_def profanity_lambda_handler_def banned_at_def
        row_of_def two_digits_def)

theorem ban_is_terminal_witness:
  "banned_at (profanity_runs fixture_libs three_strikes_world [[flagged_review ''r4'']])
     ''customers'' ''u1'' (Some (S ''2024-05-01T10:00:01''))
   \<and> banned_at
       (profanity_runs fixture_libs
          (profanity_runs fixture_libs three_strikes_world [[flagged_review ''r4'']])
          [[flagged_review ''r5'']])
       ''customers'' ''u1'' (Some (S ''2024-05-01T10:00:01''))"
  using ban_is_terminal[OF banned_after_fourth, of fixture_libs "[[flagged_review ''r5'']]"]
        banned_after_fourth
  by blast

subsection \<open>Failures inside a batch\<close>

lemmas sentiment_eval_defs =
  sentiment_analysis_def parse_s3_uri_def s3_get_object_def
  json_loads_def dict_get_def analyze_json_def analyze_sentiment_def combined_text_def
  strip_def is_space_def rating_sentiment_def blob_world_def sentiment_review_def

lemma missing_blob_analysis:
  "sentiment_analysis fixture_libs blob_world
     (sentiment_review ''r1'' ''s3://processed/preprocessed/u1/r1.json'')
   = Inl (SentimentUncaught (ClientError ''NoSuchKey''))"
  by (simp add: sentiment_eval_defs eval_defs)

lemma present_blob_analysis:
  "sentiment_analysis fixture_libs blob_world
     (sentiment_review ''r2'' ''s3://processed/preprocessed/u1/r2.json'')
   = Inr (''r2'', ''positive'')"
  by (simp add: sentiment_eval_defs eval_defs)

lemma blob_world_parameter:
  "ssm_get_parameter blob_world ''/app/config/reviews_table'' = Inr ''reviews''"
  by (simp add: ssm_get_parameter_def blob_world_def fixture_world_def pipeline_world_def)

lemma blob_world_update:
  "\<exists>it w'. ddb_update_item blob_world ''reviews'' ''reviewId'' ''r2''
              [(''sentiment'', S ''positive''), (''sentimentAnalysisStatus'', S ''processed'')]
            = Inr (it, w')"
  by (simp add: ddb_update_item_def blob_world_def fixture_world_def pipeline_world_def Let_def)

lemma missing_blob_record:
  "sentiment_record fixture_libs blob_world ''reviews''
     (sentiment_review ''r1'' ''s3://processed/preprocessed/u1/r1.json'')
   = (SentimentUncaught (ClientError ''NoSuchKey''), blob_world)"
  by (simp add: sentiment_record_def missing_blob_analysis)

lemma present_blob_record:
  "fst (sentiment_record fixture_libs blob_world ''reviews''
         (sentiment_review ''r2'' ''s3://processed/preprocessed/u1/r2.json''))
   = SentimentUpdated ''positive''"
  using blob_world_update by (auto simp: sentiment_record_def present_blob_analysis)

text \<open>
  Claim C7, evaluated. In the sentiment handler only \<^verbatim>\<open>update_item\<close> is inside a
  \<^verbatim>\<open>try\<close>. On a batch of two insert notifications whose first refers to a blob
  that does not exist, \<^verbatim>\<open>s3.get_object\<close> raises, the handler ends with that
  exception after one outcome, and the world is unchanged: the second notification is
  never attempted, although delivered alone it is processed and acknowledged.
\<close>

theorem sentiment_batch_stops_at_missing_blob:
  "sentiment_lambda_handler fixture_libs blob_world
     [sentiment_review ''r1'' ''s3://processed/preprocessed/u1/r1.json'',
      sentiment_review ''r2'' ''s3://processed/preprocessed/u1/r2.json'']
   = (Inl (ClientError ''NoSuchKey''), [SentimentUncaught (ClientError ''NoSuchKey'')], blob_world)
   \<and> fst (sentiment_lambda_handler fixture_libs blob_world
            [sentiment_review ''r2'' ''s3://processed/preprocessed/u1/r2.json''])
       = Inr 200
   \<and> fst (snd (sentiment_lambda_handler fixture_libs blob_world
            [sentiment_review ''r2'' ''s3://processed/preprocessed/u1/r2.json'']))
       = [SentimentUpdated ''positive'']"
  using present_blob_record
  by (cases "sentiment_record fixture_libs blob_world ''reviews''
               (sentiment_review ''r2'' ''s3://processed/preprocessed/u1/r2.json'')")
     (simp add: sentiment_lambda_handler_def blob_world_parameter missing_blob_record)

subsection \<open>Validation of the payload\<close>

lemma validate_missing:
  "find (\<lambda>f. map_of review f = None) fs = Some f
   \<Longrightarrow> validate (JObj review) fs = Inl (ValueError (''Missing required field: '' @ f))"
  by (induction fs) (auto simp: py_in_def)

lemma find_missing:
  "f \<in> set fs \<Longrightarrow> map_of review f = None
   \<Longrightarrow> \<exists>g. find (\<lambda>f. map_of review f = None) fs = Some g"
  by (induction fs) auto

lemmas pre_eval = pipeline_world_def fixture_world_def raw_world_def upload_def
  incomplete_review_def undated_review_def dated_review_def ssm_get_parameter_def
  s3_get_object_def required_fields_def

text \<open>
  Claim C5. Let the three parameters be present and the uploaded object be a JSON
  object that lacks one of \<^verbatim>\<open>reviewerID\<close>, \<^verbatim>\<open>asin\<close>, \<^verbatim>\<open>reviewText\<close>, \<^verbatim>\<open>overall\<close>. Then the
  handler answers with status 500 carrying \<^verbatim>\<open>ValueError("Missing required field: g")\<close>,
  where \<open>g\<close> is the first required field, in that order, that the payload lacks, and
  the world it leaves is the world it found: no blob is written, no row is written, no
  clock reading is taken.
\<close>

theorem missing_field_is_rejected_without_writes:
  assumes "ssm_get_parameter w ''/app/config/raw_bucket'' = Inr raw"
    and "ssm_get_parameter w ''/app/config/processed_bucket'' = Inr processed"
    and "ssm_get_parameter w ''/app/config/reviews_table'' = Inr reviews"
    and "s3_get_object w (bucket_name r) (object_key r) = Inr (JsonDoc (JObj review))"
    and "f \<in> set required_fields" and "map_of review f = None"
  shows "\<exists>g. find (\<lambda>g. map_of review g = None) required_fields = Some g
           \<and> preprocess_lambda_handler L w (r # rest)
               = (Failure (ValueError (''Missing required field: '' @ g)), w)"
proof -
  from find_missing[OF assms(5,6)] obtain g
    where g: "find (\<lambda>g. map_of review g = None) required_fields = Some g" by blast
  have "preprocess_try L w (r # rest) = (Inl (ValueError (''Missing required field: '' @ g)), w)"
    using assms(1-4) validate_missing[OF g]
    by (simp add: preprocess_try_def get_ssm_param_def on_success_def json_loads_def)
  with g show ?thesis by (simp add: preprocess_lambda_handler_def)
qed

theorem missing_field_is_rejected_without_writes_witness:
  "preprocess_lambda_handler fixture_libs (raw_world (JObj incomplete_review)) [upload]
     = (Failure (ValueError ''Missing required field: overall''),
        raw_world (JObj incomplete_review))"
  using missing_field_is_rejected_without_writes
          [of "raw_world (JObj incomplete_review)" "''raw''" "''processed''" "''reviews''"
              upload incomplete_review "''overall''" fixture_libs "[]"]
  by (simp add: pre_eval)

subsection \<open>Review identifiers\<close>

lemma fixture_libs_json:
  "py_repr fixture_libs (JNum 5) = ''5.0''"
  "py_repr fixture_libs (JNum 0) = ''0''"
  "py_repr fixture_libs (JNum 1393632000) = ''1393632000''"
  "py_decimal fixture_libs ''5.0'' = Some 5"
  "py_decimal fixture_libs ''0'' = Some 0"
  "ddb_serialize fixture_libs (JStr s) = Some (S s)"
  "utcfromtimestamp_iso fixture_libs (JNum x) = Some ''2014-03-01T00:00:00''"
  "strptime_iso fixture_libs j = None"
  by (simp_all add: fixture_libs_def)

lemma md5_first_reading:
  "take 8 (md5_hexdigest ''B001_u1_1714550400.0'') = ''3d683f57''"
  by code_simp

lemma md5_later_reading:
  "take 8 (md5_hexdigest ''B001_u1_1714550404.0'') = ''91b99511''"
  by code_simp

lemmas store_defs = preprocess_lambda_handler_def preprocess_try_def on_success_def
  get_ssm_param_def json_loads_def py_in_def preprocess_store_def store_item_def
  dict_index_def py_float_json_def preprocess_text_def json_truthy_def strip_def is_space_def
  parse_review_time_def tick_def fstr_def s3_put_object_def decimal_of_def votes_def
  py_len_def py_item_def serialize_def ddb_put_item_def two_digits_def generate_review_id_def
  Let_def

text \<open>
  Claim C6, as the specification states it, fails. The payload
  \<^verbatim>\<open>{"reviewerID": "u1", "asin": "B001", "reviewText": "good", "overall": 5}\<close> carries
  neither \<^verbatim>\<open>reviewId\<close> nor \<^verbatim>\<open>unixReviewTime\<close>. Ingested twice from the same object, with
  the clock advancing between the two calls, it receives two different identifiers:
  the hash input ends in the current time.
\<close>

theorem reingest_changes_identifier:
  "fst (preprocess_lambda_handler fixture_libs (raw_world (JObj undated_review)) [upload])
     = Success (JStr ''B001_u1_3d683f57'') ''preprocessed/u1/B001_u1_3d683f57.json''
   \<and> fst (preprocess_lambda_handler fixture_libs
            (snd (preprocess_lambda_handler fixture_libs (raw_world (JObj undated_review)) [upload]))
            [upload])
     = Success (JStr ''B001_u1_91b99511'') ''preprocessed/u1/B001_u1_91b99511.json''"
  using md5_first_reading md5_later_reading
  by (simp add: store_defs pre_eval fixture_libs_fields fixture_libs_json)

lemma generate_review_id_clock_free:
  "map_of review ''reviewId'' \<noteq> None \<or> map_of review ''unixReviewTime'' \<noteq> None
   \<Longrightarrow> map_sum id fst (generate_review_id L w1 review)
       = map_sum id fst (generate_review_id L w2 review)"
  by (auto simp: generate_review_id_def dict_index_def Let_def split: option.splits sum.splits)

lemma preprocess_store_id:
  "preprocess_store L w pb rt src review = (Inr (rid, k), w')
   \<Longrightarrow> map_sum id fst (generate_review_id L w review) = Inr rid"
  by (auto simp: preprocess_store_def store_item_def on_success_def Let_def
           split: sum.splits prod.splits)

lemma handler_id:
  assumes "preprocess_lambda_handler L w (r # rest) = (Success rid k, w')"
  shows "\<exists>review. s3_get_object w (bucket_name r) (object_key r) = Inr (JsonDoc (JObj review))
           \<and> map_sum id fst (generate_review_id L w review) = Inr rid"
  using assms preprocess_store_id[of L w _ _ _ _ rid k w']
  by (auto simp: preprocess_lambda_handler_def preprocess_try_def on_success_def json_loads_def
           split: sum.splits prod.splits json.splits body.splits)

text \<open>
  Claim C6, amended. A \<^verbatim>\<open>reviewId\<close> carried by the payload is returned as it is, and
  the clock is not read. Without one, when the payload carries \<^verbatim>\<open>asin\<close>, \<^verbatim>\<open>reviewerID\<close>
  and \<^verbatim>\<open>unixReviewTime\<close>, the identifier is \<^verbatim>\<open>asin_reviewerID_h\<close> where \<open>h\<close> is the
  first eight hexadecimal digits of the MD5 digest of
  \<^verbatim>\<open>asin_reviewerID_unixReviewTime\<close>; when \<^verbatim>\<open>unixReviewTime\<close> is absent the digest is
  taken of \<^verbatim>\<open>asin_reviewerID_\<close> followed by the current UTC timestamp, so the
  identifier is a function of the time of ingestion. Hence two payloads without
  \<^verbatim>\<open>reviewId\<close> that agree on \<^verbatim>\<open>asin\<close>, \<^verbatim>\<open>reviewerID\<close> and a present \<^verbatim>\<open>unixReviewTime\<close>
  receive the same identifier (or raise the same exception), whatever the worlds; and
  when the same object, carrying a \<^verbatim>\<open>reviewId\<close> or a \<^verbatim>\<open>unixReviewTime\<close>, is ingested
  successfully in two worlds, the two responses carry the same identifier.
\<close>

theorem review_id_deterministic:
  "(map_of review ''reviewId'' = Some rid \<longrightarrow> generate_review_id L w review = Inr (rid, w))
   \<and> (map_of review ''reviewId'' = None \<and> map_of review ''asin'' = Some a
        \<and> map_of review ''reviewerID'' = Some u \<and> map_of review ''unixReviewTime'' = Some t
      \<longrightarrow> generate_review_id L w review
            = Inr (JStr (fstr L a @ ''_'' @ fstr L u @ ''_''
                         @ take 8 (md5_hexdigest (fstr L a @ ''_'' @ fstr L u @ ''_'' @ fstr L t))),
                   tick w))
   \<and> (map_of review ''reviewId'' = None \<and> map_of review ''asin'' = Some a
        \<and> map_of review ''reviewerID'' = Some u \<and> map_of review ''unixReviewTime'' = None
      \<longrightarrow> generate_review_id L w review
            = Inr (JStr (fstr L a @ ''_'' @ fstr L u @ ''_''
                         @ take 8 (md5_hexdigest (fstr L a @ ''_'' @ fstr L u @ ''_''
                                                   @ utcnow_timestamp L (ticks w)))),
                   tick w))
   \<and> (map_of r1 ''reviewId'' = None \<and> map_of r2 ''reviewId'' = None
        \<and> map_of r1 ''asin'' = map_of r2 ''asin''
        \<and> map_of r1 ''reviewerID'' = map_of r2 ''reviewerID''
        \<and> map_of r1 ''unixReviewTime'' = Some t \<and> map_of r2 ''unixReviewTime'' = Some t
      \<longrightarrow> map_sum id fst (generate_review_id L w1 r1) = map_sum id fst (generate_review_id L w2 r2))
   \<and> (preprocess_lambda_handler L v1 (up # rest1) = (Success id1 k1, v1')
        \<and> preprocess_lambda_handler L v2 (up # rest2) = (Success id2 k2, v2')
        \<and> s3_get_object v1 (bucket_name up) (object_key up) = Inr (JsonDoc (JObj payload))
        \<and> s3_get_object v2 (bucket_name up) (object_key up) = Inr (JsonDoc (JObj payload))
        \<and> (map_of payload ''reviewId'' \<noteq> None \<or> map_of payload ''unixReviewTime'' \<noteq> None)
      \<longrightarrow> id2 = id1)"
proof (intro conjI impI)
  assume "map_of review ''reviewId'' = Some rid"
  then show "generate_review_id L w review = Inr (rid, w)"
    by (simp add: generate_review_id_def)
next
  assume "map_of review ''reviewId'' = None \<and> map_of review ''asin'' = Some a
        \<and> map_of review ''reviewerID'' = Some u \<and> map_of review ''unixReviewTime'' = Some t"
  then show "generate_review_id L w review
            = Inr (JStr (fstr L a @ ''_'' @ fstr L u @ ''_''
                         @ take 8 (md5_hexdigest (fstr L a @ ''_'' @ fstr L u @ ''_'' @ fstr L t))),
                   tick w)"
    by (simp add: generate_review_id_def dict_index_def Let_def)
next
  assume "map_of review ''reviewId'' = None \<and> map_of review ''asin'' = Some a
        \<and> map_of review ''reviewerID'' = Some u \<and> map_of review ''unixReviewTime'' = None"
  then show "generate_review_id L w review
            = Inr (JStr (fstr L a @ ''_'' @ fstr L u @ ''_''
                         @ take 8 (md5_hexdigest (fstr L a @ ''_'' @ fstr L u @ ''_''
                                                   @ utcnow_timestamp L (ticks w)))),
                   tick w)"
    by (simp add: generate_review_id_def dict_index_def Let_def)
next
  assume "map_of r1 ''reviewId'' = None \<and> map_of r2 ''reviewId'' = None
        \<and> map_of r1 ''asin'' = map_of r2 ''asin''
        \<and> map_of r1 ''reviewerID'' = map_of r2 ''reviewerID''
        \<and> map_of r1 ''unixReviewTime'' = Some t \<and> map_of r2 ''unixReviewTime'' = Some t"
  then show "map_sum id fst (generate_review_id L w1 r1)
               = map_sum id fst (generate_review_id L w2 r2)"
    by (auto simp: generate_review_id_def dict_index_def Let_def split: option.splits sum.splits)
next
  assume a: "preprocess_lambda_handler L v1 (up # rest1) = (Success id1 k1, v1')
        \<and> preprocess_lambda_handler L v2 (up # rest2) = (Success id2 k2, v2')
        \<and> s3_get_object v1 (bucket_name up) (object_key up) = Inr (JsonDoc (JObj payload))
        \<and> s3_get_object v2 (bucket_name up) (object_key up) = Inr (JsonDoc (JObj payload))
        \<and> (map_of payload ''reviewId'' \<noteq> None \<or> map_of payload ''unixReviewTime'' \<noteq> None)"
  from a handler_id[of L v1 up rest1 id1 k1 v1']
  have one: "map_sum id fst (generate_review_id L v1 payload) = Inr id1" by auto
  from a handler_id[of L v2 up rest2 id2 k2 v2']
  have two: "map_sum id fst (generate_review_id L v2 payload) = Inr id2" by auto
  from a generate_review_id_clock_free[of payload L v1 v2] one two
  show "id2 = id1" by simp
qed

lemma md5_dated:
  "take 8 (md5_hexdigest ''B001_u1_1393632000'') = ''3b12dfce''"
  by code_simp

lemma dated_first_ingest:
  "fst (preprocess_lambda_handler fixture_libs (raw_world (JObj dated_review)) [upload])
     = Success (JStr ''B001_u1_3b12dfce'') ''preprocessed/u1/B001_u1_3b12dfce.json''"
  using md5_dated
  by (simp add: store_defs pre_eval fixture_libs_fields fixture_libs_json)

lemma dated_second_ingest:
  "fst (preprocess_lambda_handler fixture_libs
          (snd (preprocess_lambda_handler fixture_libs (raw_world (JObj dated_review)) [upload]))
          [upload])
     = Success (JStr ''B001_u1_3b12dfce'') ''preprocessed/u1/B001_u1_3b12dfce.json''"
  using md5_dated
  by (simp add: store_defs pre_eval fixture_libs_fields fixture_libs_json)

theorem review_id_deterministic_witness:
  "generate_review_id fixture_libs fixture_world [(''reviewId'', JStr ''r7'')]
     = Inr (JStr ''r7'', fixture_world)
   \<and> generate_review_id fixture_libs fixture_world dated_review
       = Inr (JStr ''B001_u1_3b12dfce'', tick fixture_world)
   \<and> generate_review_id fixture_libs fixture_world undated_review
       = Inr (JStr ''B001_u1_3d683f57'', tick fixture_world)
   \<and> map_sum id fst (generate_review_id fixture_libs fixture_world dated_review)
       = map_sum id fst (generate_review_id fixture_libs (tick fixture_world) dated_review)
   \<and> fst (preprocess_lambda_handler fixture_libs
            (snd (preprocess_lambda_handler fixture_libs (raw_world (JObj dated_review)) [upload]))
            [upload])
       = fst (preprocess_lambda_handler fixture_libs (raw_world (JObj dated_review)) [upload])"
  using review_id_deterministic
          [where review = "[(''reviewId'', JStr ''r7'')]" and rid = "JStr ''r7''"
             and L = fixture_libs and w = fixture_world
             and ?r1.0 = dated_review and ?r2.0 = dated_review and t = "JNum 1393632000"
             and ?w1.0 = fixture_world and ?w2.0 = "tick fixture_world"]
        review_id_deterministic
          [where review = dated_review and L = fixture_libs and w = fixture_world
             and a = "JStr ''B001''" and u = "JStr ''u1''" and t = "JNum 1393632000"]
        review_id_deterministic
          [where review = dated_review and L = fixture_libs and w = "tick fixture_world"
             and a = "JStr ''B001''" and u = "JStr ''u1''" and t = "JNum 1393632000"]
        review_id_deterministic
          [where review = undated_review and L = fixture_libs and w = fixture_world
             and a = "JStr ''B001''" and u = "JStr ''u1''"]
        md5_dated md5_first_reading dated_first_ingest dated_second_ingest
  by (simp add: dated_review_def undated_review_def incomplete_review_def fstr_def
        fixture_libs_fields fixture_libs_json two_digits_def fixture_world_def pipeline_world_def)

subsection \<open>Configuration parameters\<close>

lemma profanity_try_caught: "fst (profanity_try L w img rid uid) \<noteq> Uncaught e"
  by (simp add: profanity_try_def Let_def split: sum.splits prod.splits)

lemma profanity_record_caught:
  assumes "eventName r = ''INSERT'' \<longrightarrow>
             (\<exists>rid uid. image_S (NewImage r) ''reviewId'' = Inr rid
                       \<and> image_S (NewImage r) ''userId'' = Inr uid)"
  shows "fst (profanity_record L w r) \<noteq> Uncaught e"
  using assms profanity_try_caught[of L w "NewImage r" _ _ e]
  by (auto simp: profanity_record_def)

lemma profanity_records_caught:
  "\<forall>r\<in>set records. eventName r = ''INSERT'' \<longrightarrow>
       (\<exists>rid uid. image_S (NewImage r) ''reviewId'' = Inr rid
                 \<and> image_S (NewImage r) ''userId'' = Inr uid)
   \<Longrightarrow> handler_result (fst (profanity_records L w records)) = Inr 200"
proof (induction records arbitrary: w)
  case Nil
  then show ?case by simp
next
  case (Cons r rs)
  obtain out w' where rec: "profanity_record L w r = (out, w')"
    by (cases "profanity_record L w r")
  have "\<And>e. out \<noteq> Uncaught e"
    using profanity_record_caught[of r L w] Cons.prems rec by auto
  moreover have "handler_result (fst (profanity_records L w' rs)) = Inr 200"
    using Cons by simp
  ultimately show ?case using rec
    by (cases out; cases "profanity_records L w' rs") simp_all
qed

lemma missing_customers_table:
  assumes "ssm w ''/app/config/customers_table'' = None"
  shows "\<exists>e. fst (profanity_try L w img rid uid) = RecordError e"
proof -
  have "\<And>it w2. ddb_update_item (w\<lparr>ticks := Suc (ticks w)\<rparr>) ''reviews'' ''reviewId'' rid
             [(''profanityCheckStatus'', S ''completed''), (''hasProfanity'', BOOL b),
              (''lastUpdated'', S (now_iso L (ticks w)))] = Inr (it, w2)
          \<Longrightarrow> ssm_get_parameter w2 ''/app/config/customers_table''
                = Inl (ClientError ''ParameterNotFound'')" for b
    using assms by (auto dest!: ddb_update_item_row(2) simp: ssm_get_parameter_def)
  then show ?thesis
    by (auto simp: profanity_try_def Let_def split: sum.splits prod.splits)
qed

lemma preprocess_missing_parameter:
  assumes "find (\<lambda>n. ssm w n = None)
             [''/app/config/raw_bucket'', ''/app/config/processed_bucket'',
              ''/app/config/reviews_table''] = Some n"
  shows "preprocess_lambda_handler L w uploads
           = (Failure (ValueError (''SSM Error ('' @ n @ ''): ParameterNotFound'')), w)"
  using assms
  by (auto simp: preprocess_lambda_handler_def preprocess_try_def on_success_def
        get_ssm_param_def ssm_get_parameter_def exn_text_def split: if_splits option.splits)

text \<open>
  Claim C9, as the specification states it, fails for ProfanityStage. With an empty
  Parameter Store the handler does not fail at startup: it processes the record,
  writes \<^verbatim>\<open>profanityCheckStatus\<close> to the review row (the table name \<^verbatim>\<open>reviews\<close> is a
  literal), only then asks for \<^verbatim>\<open>customers_table\<close>, catches the failure as an error of
  that record, and returns status 200.
\<close>

theorem profanity_runs_unconfigured:
  "fst (profanity_lambda_handler fixture_libs unconfigured_world [flagged_review ''r1'']) = Inr 200
   \<and> fst (snd (profanity_lambda_handler fixture_libs unconfigured_world [flagged_review ''r1'']))
       = [RecordError (ClientError ''ParameterNotFound'')]
   \<and> customer_attr (snd (snd (profanity_lambda_handler fixture_libs unconfigured_world
                                 [flagged_review ''r1''])))
        ''reviews'' ''r1'' ''profanityCheckStatus'' = Some (S ''completed'')
   \<and> row_of unconfigured_world ''reviews'' ''r1'' = None"
  by (simp add: profanity_lambda_handler_def unconfigured_world_def eval_defs customer_attr_def
        row_of_def)

lemma update_customer_ssm:
  assumes "update_customer w ct u hp now = Inr (uc, w')"
  shows "ssm w' = ssm w"
  using update_customer_InrD[OF assms] by auto

lemma review_row_written:
  assumes "ddb_update_item w1 ''reviews'' ''reviewId'' rid
             [(''profanityCheckStatus'', S ''completed''), (''hasProfanity'', BOOL hp),
              (''lastUpdated'', S d)] = Inr (it, w2)"
  shows "row_of w2 ''reviews'' rid = Some it"
    and "it ''profanityCheckStatus'' = Some (S ''completed'')"
    and "it ''hasProfanity'' = Some (BOOL hp)"
  using ddb_update_item_row(1)[OF assms, of "''reviews''" rid] ddb_update_item_InrD[OF assms]
  by (auto simp: set_attrs_def)

lemma customers_table_absent:
  assumes "ssm w ''/app/config/customers_table'' = None"
    and "fetch_texts w img = Inr (rt, st)"
    and "has_profanity L rt st = Inr hp"
    and up: "ddb_update_item (w\<lparr>ticks := Suc (ticks w)\<rparr>) ''reviews'' ''reviewId'' rid
             [(''profanityCheckStatus'', S ''completed''), (''hasProfanity'', BOOL hp),
              (''lastUpdated'', S (now_iso L (ticks w)))] = Inr (it, w2)"
  shows "profanity_try L w img rid uid = (RecordError (ClientError ''ParameterNotFound''), w2)"
proof -
  have "ssm w2 = ssm w" using ddb_update_item_row(2)[OF up] by simp
  then have "ssm_get_parameter w2 ''/app/config/customers_table''
               = Inl (ClientError ''ParameterNotFound'')"
    using assms(1) by (simp add: ssm_get_parameter_def)
  then show ?thesis using assms(2,3) up by (simp add: profanity_try_def Let_def)
qed

lemma threshold_absent:
  assumes "ssm w ''/app/config/profanity_threshold'' = None"
    and "fetch_texts w img = Inr (rt, st)"
    and "has_profanity L rt st = Inr hp"
    and up: "ddb_update_item (w\<lparr>ticks := Suc (ticks w)\<rparr>) ''reviews'' ''reviewId'' rid
             [(''profanityCheckStatus'', S ''completed''), (''hasProfanity'', BOOL hp),
              (''lastUpdated'', S (now_iso L (ticks w)))] = Inr (it, w2)"
    and ct: "ssm_get_parameter w2 ''/app/config/customers_table'' = Inr ct"
    and uc: "update_customer (w2\<lparr>ticks := Suc (ticks w2)\<rparr>) ct uid hp (now_iso L (ticks w2))
             = Inr (uc, w4)"
    and c: "py_num (item_get uc ''violationCount'' (N 0)) = Some c"
  shows "profanity_try L w img rid uid
           = (if c > 0 \<and> \<not> truthy (item_get uc ''isBanned'' (BOOL False))
              then RecordError (ClientError ''ParameterNotFound'') else Completed hp False, w4)"
proof -
  have "ssm w4 = ssm w"
    using ddb_update_item_row(2)[OF up] update_customer_ssm[OF uc] by simp
  then have "ssm_get_parameter w4 ''/app/config/profanity_threshold''
               = Inl (ClientError ''ParameterNotFound'')"
    using assms(1) by (simp add: ssm_get_parameter_def)
  then have "apply_ban L w4 ct uid uc (now_iso L (ticks w2))
               = (if c > 0 \<and> \<not> truthy (item_get uc ''isBanned'' (BOOL False))
                  then Inl (ClientError ''ParameterNotFound'') else Inr (False, w4))"
    using c by (simp add: apply_ban_def)
  then show ?thesis using assms(2,3) up ct uc by (simp add: profanity_try_def Let_def)
qed

text \<open>
  Claim C9, amended, stage by stage. SentimentStage reads \<^verbatim>\<open>reviews_table\<close> before the
  loop: when that fails the invocation raises, no record is attempted and the world is
  unchanged. PreprocessStage reads \<^verbatim>\<open>raw_bucket\<close>, \<^verbatim>\<open>processed_bucket\<close>,
  \<^verbatim>\<open>reviews_table\<close> first: when one is absent it answers with status 500 naming the
  first absent one, and the world is unchanged. ProfanityStage has no startup read:
  an invocation whose \<^verbatim>\<open>INSERT\<close> records carry \<^verbatim>\<open>reviewId\<close> and \<^verbatim>\<open>userId\<close> returns status
  200 whatever the Parameter Store holds. It asks for \<^verbatim>\<open>customers_table\<close> per record,
  after the update of the review row: when the parameter is absent and the texts were
  fetched and classified and that update succeeded, the record ends in the outer
  \<^verbatim>\<open>except\<close> with \<^verbatim>\<open>ParameterNotFound\<close>, in the world the update left, where the review
  row carries \<^verbatim>\<open>profanityCheckStatus = completed\<close> and \<^verbatim>\<open>hasProfanity\<close>. It asks for
  \<^verbatim>\<open>profanity_threshold\<close> only when the updated violation count is positive and the
  customer is not banned: when the parameter is absent and the record reached that
  point, it ends in the outer \<^verbatim>\<open>except\<close> with \<^verbatim>\<open>ParameterNotFound\<close> in that case and
  completes without a ban otherwise, and in both cases the world is the one the
  customer update left, with the updated customer row stored.
\<close>

theorem configuration_failures:
  "(ssm_get_parameter w ''/app/config/reviews_table'' = Inl e
      \<longrightarrow> sentiment_lambda_handler L w records = (Inl e, [], w))
   \<and> (find (\<lambda>n. ssm w n = None)
          [''/app/config/raw_bucket'', ''/app/config/processed_bucket'',
           ''/app/config/reviews_table''] = Some n
      \<longrightarrow> preprocess_lambda_handler L w uploads
            = (Failure (ValueError (''SSM Error ('' @ n @ ''): ParameterNotFound'')), w))
   \<and> ((\<forall>r\<in>set records. eventName r = ''INSERT'' \<longrightarrow>
           (\<exists>rid uid. image_S (NewImage r) ''reviewId'' = Inr rid
                     \<and> image_S (NewImage r) ''userId'' = Inr uid))
      \<longrightarrow> fst (profanity_lambda_handler L w records) = Inr 200)
   \<and> (ssm w ''/app/config/customers_table'' = None
        \<and> fetch_texts w img = Inr (rt, st) \<and> has_profanity L rt st = Inr hp
        \<and> ddb_update_item (w\<lparr>ticks := Suc (ticks w)\<rparr>) ''reviews'' ''reviewId'' rid
             [(''profanityCheckStatus'', S ''completed''), (''hasProfanity'', BOOL hp),
              (''lastUpdated'', S (now_iso L (ticks w)))] = Inr (it, w2)
      \<longrightarrow> profanity_try L w img rid uid = (RecordError (ClientError ''ParameterNotFound''), w2)
          \<and> row_of w2 ''reviews'' rid = Some it
          \<and> it ''profanityCheckStatus'' = Some (S ''completed'')
          \<and> it ''hasProfanity'' = Some (BOOL hp))
   \<and> (ssm w ''/app/config/profanity_threshold'' = None
        \<and> fetch_texts w img = Inr (rt, st) \<and> has_profanity L rt st = Inr hp
        \<and> ddb_update_item (w\<lparr>ticks := Suc (ticks w)\<rparr>) ''reviews'' ''reviewId'' rid
             [(''profanityCheckStatus'', S ''completed''), (''hasProfanity'', BOOL hp),
              (''lastUpdated'', S (now_iso L (ticks w)))] = Inr (it, w2)
        \<and> ssm_get_parameter w2 ''/app/config/customers_table'' = Inr ct
        \<and> update_customer (w2\<lparr>ticks := Suc (ticks w2)\<rparr>) ct uid hp (now_iso L (ticks w2))
             = Inr (uc, w4)
        \<and> py_num (item_get uc ''violationCount'' (N 0)) = Some c
      \<longrightarrow> profanity_try L w img rid uid
            = (if c > 0 \<and> \<not> truthy (item_get uc ''isBanned'' (BOOL False))
               then RecordError (ClientError ''ParameterNotFound'') else Completed hp False, w4)
          \<and> row_of w4 ct uid = Some uc)"
proof (intro conjI impI)
  assume "ssm_get_parameter w ''/app/config/reviews_table'' = Inl e"
  then show "sentiment_lambda_handler L w records = (Inl e, [], w)"
    by (simp add: sentiment_lambda_handler_def)
next
  assume "find (\<lambda>n. ssm w n = None)
            [''/app/config/raw_bucket'', ''/app/config/processed_bucket'',
             ''/app/config/reviews_table''] = Some n"
  then show "preprocess_lambda_handler L w uploads
               = (Failure (ValueError (''SSM Error ('' @ n @ ''): ParameterNotFound'')), w)"
    by (rule preprocess_missing_parameter)
next
  assume "\<forall>r\<in>set records. eventName r = ''INSERT'' \<longrightarrow>
            (\<exists>rid uid. image_S (NewImage r) ''reviewId'' = Inr rid
                      \<and> image_S (NewImage r) ''userId'' = Inr uid)"
  from profanity_records_caught[OF this, of L w]
  show "fst (profanity_lambda_handler L w records) = Inr 200"
    by (cases "profanity_records L w records") (simp add: profanity_lambda_handler_def)
next
  assume a: "ssm w ''/app/config/customers_table'' = None
        \<and> fetch_texts w img = Inr (rt, st) \<and> has_profanity L rt st = Inr hp
        \<and> ddb_update_item (w\<lparr>ticks := Suc (ticks w)\<rparr>) ''reviews'' ''reviewId'' rid
             [(''profanityCheckStatus'', S ''completed''), (''hasProfanity'', BOOL hp),
              (''lastUpdated'', S (now_iso L (ticks w)))] = Inr (it, w2)"
  then show "profanity_try L w img rid uid = (RecordError (ClientError ''ParameterNotFound''), w2)"
    using customers_table_absent by blast
  from a show "row_of w2 ''reviews'' rid = Some it"
    using review_row_written(1) by blast
  from a show "it ''profanityCheckStatus'' = Some (S ''completed'')"
    using review_row_written(2) by blast
  from a show "it ''hasProfanity'' = Some (BOOL hp)"
    using review_row_written(3) by blast
next
  assume a: "ssm w ''/app/config/profanity_threshold'' = None
        \<and> fetch_texts w img = Inr (rt, st) \<and> has_profanity L rt st = Inr hp
        \<and> ddb_update_item (w\<lparr>ticks := Suc (ticks w)\<rparr>) ''reviews'' ''reviewId'' rid
             [(''profanityCheckStatus'', S ''completed''), (''hasProfanity'', BOOL hp),
              (''lastUpdated'', S (now_iso L (ticks w)))] = Inr (it, w2)
        \<and> ssm_get_parameter w2 ''/app/config/customers_table'' = Inr ct
        \<and> update_customer (w2\<lparr>ticks := Suc (ticks w2)\<rparr>) ct uid hp (now_iso L (ticks w2))
             = Inr (uc, w4)
        \<and> py_num (item_get uc ''violationCount'' (N 0)) = Some c"
  then show "profanity_try L w img rid uid
            = (if c > 0 \<and> \<not> truthy (item_get uc ''isBanned'' (BOOL False))
               then RecordError (ClientError ''ParameterNotFound'') else Completed hp False, w4)"
    using threshold_absent by blast
  from a show "row_of w4 ct uid = Some uc"
    using update_customer_row by blast
qed

lemma flagged_texts:
  "fetch_texts w (NewImage (flagged_review rid)) = Inr (JStr ''damn thing'', JStr ''bad'')"
  "has_profanity fixture_libs (JStr ''damn thing'') (JStr ''bad'') = Inr True"
  by (simp_all add: fetch_texts_def flagged_review_def has_profanity_def check_profane_def
        image_S_def fixture_libs_fields)

lemma unconfigured_steps:
  "ssm unconfigured_world ''/app/config/customers_table'' = None"
  "\<exists>it w2. ddb_update_item (unconfigured_world\<lparr>ticks := Suc (ticks unconfigured_world)\<rparr>)
              ''reviews'' ''reviewId'' ''r1''
              [(''profanityCheckStatus'', S ''completed''), (''hasProfanity'', BOOL True),
               (''lastUpdated'', S (now_iso fixture_libs (ticks unconfigured_world)))]
            = Inr (it, w2)"
  by (simp_all add: unconfigured_world_def fixture_world_def pipeline_world_def
        ddb_update_item_def Let_def)

lemma thresholdless_steps:
  "ssm thresholdless_world ''/app/config/profanity_threshold'' = None"
  "\<exists>it w2 uc w4 c.
     ddb_update_item (thresholdless_world\<lparr>ticks := Suc (ticks thresholdless_world)\<rparr>)
        ''reviews'' ''reviewId'' ''r4''
        [(''profanityCheckStatus'', S ''completed''), (''hasProfanity'', BOOL True),
         (''lastUpdated'', S (now_iso fixture_libs (ticks thresholdless_world)))]
       = Inr (it, w2)
     \<and> ssm_get_parameter w2 ''/app/config/customers_table'' = Inr ''customers''
     \<and> update_customer (w2\<lparr>ticks := Suc (ticks w2)\<rparr>) ''customers'' ''u1'' True
          (now_iso fixture_libs (ticks w2)) = Inr (uc, w4)
     \<and> py_num (item_get uc ''violationCount'' (N 0)) = Some c
     \<and> c = 4 \<and> \<not> truthy (item_get uc ''isBanned'' (BOOL False))"
  by (simp_all add: thresholdless_world_def eval_defs)

theorem configuration_failures_witness:
  "sentiment_lambda_handler fixture_libs unconfigured_world [flagged_review ''r1'']
     = (Inl (ClientError ''ParameterNotFound''), [], unconfigured_world)
   \<and> preprocess_lambda_handler fixture_libs unconfigured_world [upload]
       = (Failure (ValueError ''SSM Error (/app/config/raw_bucket): ParameterNotFound''),
          unconfigured_world)
   \<and> fst (profanity_lambda_handler fixture_libs unconfigured_world [flagged_review ''r1''])
       = Inr 200
   \<and> fst (profanity_try fixture_libs unconfigured_world (NewImage (flagged_review ''r1''))
            ''r1'' ''u1'') = RecordError (ClientError ''ParameterNotFound'')
   \<and> customer_attr (snd (profanity_try fixture_libs unconfigured_world
                            (NewImage (flagged_review ''r1'')) ''r1'' ''u1''))
        ''reviews'' ''r1'' ''profanityCheckStatus'' = Some (S ''completed'')
   \<and> fst (profanity_try fixture_libs thresholdless_world (NewImage (flagged_review ''r4''))
            ''r4'' ''u1'') = RecordError (ClientError ''ParameterNotFound'')
   \<and> counter (snd (profanity_try fixture_libs thresholdless_world
                      (NewImage (flagged_review ''r4'')) ''r4'' ''u1''))
        ''customers'' ''u1'' ''violationCount'' = Some 4"
proof -
  have start:
    "sentiment_lambda_handler fixture_libs unconfigured_world [flagged_review ''r1'']
       = (Inl (ClientError ''ParameterNotFound''), [], unconfigured_world)
     \<and> preprocess_lambda_handler fixture_libs unconfigured_world [upload]
         = (Failure (ValueError ''SSM Error (/app/config/raw_bucket): ParameterNotFound''),
            unconfigured_world)
     \<and> fst (profanity_lambda_handler fixture_libs unconfigured_world [flagged_review ''r1''])
         = Inr 200"
    using configuration_failures
            [where w = unconfigured_world and L = fixture_libs
               and e = "ClientError ''ParameterNotFound''"
               and records = "[flagged_review ''r1'']" and uploads = "[upload]"
               and n = "''/app/config/raw_bucket''"]
    by (simp add: unconfigured_world_def ssm_get_parameter_def flagged_review_def image_S_def)
  obtain it w2 where up:
    "ddb_update_item (unconfigured_world\<lparr>ticks := Suc (ticks unconfigured_world)\<rparr>)
       ''reviews'' ''reviewId'' ''r1''
       [(''profanityCheckStatus'', S ''completed''), (''hasProfanity'', BOOL True),
        (''lastUpdated'', S (now_iso fixture_libs (ticks unconfigured_world)))] = Inr (it, w2)"
    using unconfigured_steps(2) by blast
  have absent:
    "profanity_try fixture_libs unconfigured_world (NewImage (flagged_review ''r1'')) ''r1'' ''u1''
       = (RecordError (ClientError ''ParameterNotFound''), w2)
     \<and> row_of w2 ''reviews'' ''r1'' = Some it
     \<and> it ''profanityCheckStatus'' = Some (S ''completed'')"
    using configuration_failures
            [where w = unconfigured_world and L = fixture_libs
               and img = "NewImage (flagged_review ''r1'')" and rt = "JStr ''damn thing''"
               and st = "JStr ''bad''" and hp = True and rid = "''r1''" and uid = "''u1''"
               and it = it and ?w2.0 = w2]
          unconfigured_steps(1) flagged_texts up
    by simp
  obtain it' w2' uc w4 c where steps:
    "ddb_update_item (thresholdless_world\<lparr>ticks := Suc (ticks thresholdless_world)\<rparr>)
        ''reviews'' ''reviewId'' ''r4''
        [(''profanityCheckStatus'', S ''completed''), (''hasProfanity'', BOOL True),
         (''lastUpdated'', S (now_iso fixture_libs (ticks thresholdless_world)))]
       = Inr (it', w2')"
    "ssm_get_parameter w2' ''/app/config/customers_table'' = Inr ''customers''"
    "update_customer (w2'\<lparr>ticks := Suc (ticks w2')\<rparr>) ''customers'' ''u1'' True
          (now_iso fixture_libs (ticks w2')) = Inr (uc, w4)"
    "py_num (item_get uc ''violationCount'' (N 0)) = Some c"
    "c = 4" "\<not> truthy (item_get uc ''isBanned'' (BOOL False))"
    using thresholdless_steps(2) by blast
  have due:
    "profanity_try fixture_libs thresholdless_world (NewImage (flagged_review ''r4'')) ''r4'' ''u1''
       = (RecordError (ClientError ''ParameterNotFound''), w4)
     \<and> row_of w4 ''customers'' ''u1'' = Some uc"
    using configuration_failures
            [where w = thresholdless_world and L = fixture_libs
               and img = "NewImage (flagged_review ''r4'')" and rt = "JStr ''damn thing''"
               and st = "JStr ''bad''" and hp = True and rid = "''r4''" and uid = "''u1''"
               and it = it' and ?w2.0 = w2' and ct = "''customers''" and uc = uc
               and ?w4.0 = w4 and c = c]
          thresholdless_steps(1) flagged_texts steps
    by simp
  from start absent due steps(4,5) show ?thesis
    by (simp add: customer_attr_def counter_def)
qed

subsection \<open>Independence of the two stream stages\<close>

lemma put_row_frame [simp]:
  "ssm (put_row w T k it) = ssm w"
  "s3 (put_row w T k it) = s3 w"
  "ticks (put_row w T k it) = ticks w"
  "key_schema (put_row w T k it) = key_schema w"
  "put_row (w\<lparr>ticks := n\<rparr>) T k it = (put_row w T k it)\<lparr>ticks := n\<rparr>"
  by (auto simp: put_row_def key_schema_def fun_eq_iff split: option.splits)

lemma key_schema_ticks [simp]: "key_schema (w\<lparr>ticks := n\<rparr>) = key_schema w"
  by (simp add: key_schema_def)

lemma row_of_ticks [simp]: "row_of (w\<lparr>ticks := n\<rparr>) t u = row_of w t u"
  by (simp add: row_of_def)





































end
